theory Spec2Isabelle
  imports Main "HOL-Library.Log_Nat" "HOL-Library.AList"
begin

section \<open>Panel configurations and the layout templates\<close>

text \<open>
  A panel configuration is the plain object the templates, the saved layouts and the
  snapshots are made of: \<^verbatim>\<open>{id, title, x, y, width, height, hidden}\<close>. Positions and
  sizes are whole pixels; a size is never negative (a negative CSS length is not a
  value the \<^verbatim>\<open>width\<close> property takes). A missing \<^verbatim>\<open>hidden\<close> key reads as false.
\<close>

record panelConfig =
  pc_id :: string
  pc_title :: string
  pc_x :: int
  pc_y :: int
  pc_width :: nat
  pc_height :: nat
  pc_hidden :: bool

definition mkPanel :: "string \<Rightarrow> string \<Rightarrow> int \<Rightarrow> int \<Rightarrow> nat \<Rightarrow> nat \<Rightarrow> bool \<Rightarrow> panelConfig" where
  "mkPanel i t x y w h hid =
     \<lparr>pc_id = i, pc_title = t, pc_x = x, pc_y = y, pc_width = w, pc_height = h, pc_hidden = hid\<rparr>"

text \<open>The constant \<^verbatim>\<open>layouts\<close>: section name to its default panels.\<close>

definition layouts :: "string \<Rightarrow> panelConfig list option" where
  "layouts sectionName =
     (if sectionName = ''writing'' then Some
        [mkPanel ''editor'' ''Editor'' 0 0 800 600 False,
         mkPanel ''character-panel'' ''Characters'' 810 0 350 280 False,
         mkPanel ''world-panel'' ''World Notes'' 810 290 350 310 False]
      else if sectionName = ''plotting'' then Some
        [mkPanel ''plot-board'' ''Plot Board'' 0 0 900 600 False,
         mkPanel ''story-elements'' ''Story Elements'' 910 0 250 600 False]
      else if sectionName = ''characters'' then Some
        [mkPanel ''character-list'' ''Character List'' 0 0 1200 600 False,
         mkPanel ''character-editor'' ''Character Details'' 910 0 500 600 True]
      else if sectionName = ''worldbuilding'' then Some
        [mkPanel ''world-tree'' ''World Structure'' 0 0 250 600 False,
         mkPanel ''world-editor'' ''World Details'' 260 0 900 600 False]
      else if sectionName = ''research'' then Some
        [mkPanel ''research-list'' ''Research Items'' 0 0 400 600 False,
         mkPanel ''research-viewer'' ''Research Details'' 410 0 750 600 False]
      else None)"

section \<open>The document: panel elements and containers\<close>

text \<open>
  A panel element is the \<^verbatim>\<open>div\<close> that \<^verbatim>\<open>createPanel\<close> builds. Only what the panel
  system reads or writes is kept: the id, the four inline style lengths, whether
  \<^verbatim>\<open>style.display\<close> is \<^verbatim>\<open>none\<close>, the z-index as
  \<^verbatim>\<open>parseInt(getComputedStyle(el).zIndex) || 0\<close> reads it, the container the element is
  attached to (\<^verbatim>\<open>parentElement\<close>, none once removed) and the \<^verbatim>\<open>dragging\<close> class.
  Elements are objects shared between the panel map, the drag state and the document,
  so they live in a store addressed by references.
\<close>

record element =
  el_id :: string
  style_left :: int
  style_top :: int
  style_width :: nat
  style_height :: nat
  display_none :: bool
  zIndex :: int
  parentElement :: "nat option"
  dragging :: bool

text \<open>
  \<^verbatim>\<open>offsetWidth\<close> and \<^verbatim>\<open>offsetHeight\<close> are the size of the element's layout box. An
  element with \<^verbatim>\<open>display: none\<close> has no layout box and reports 0; a displayed panel
  reports its styled size (the panel's box is its border box).
\<close>

definition offsetWidth :: "element \<Rightarrow> nat" where
  "offsetWidth el = (if display_none el then 0 else style_width el)"

definition offsetHeight :: "element \<Rightarrow> nat" where
  "offsetHeight el = (if display_none el then 0 else style_height el)"

record rect =
  rect_left :: int
  rect_top :: int
  rect_width :: nat
  rect_height :: nat

record mouseEvent =
  clientX :: int
  clientY :: int

section \<open>PanelSystem\<close>

text \<open>
  \<^verbatim>\<open>this.panels\<close> is a JavaScript \<^verbatim>\<open>Map\<close> from id to \<^verbatim>\<open>{element, config}\<close>: an
  association list in insertion order, where \<^verbatim>\<open>set\<close> on a present key replaces the
  value in place (\<^const>\<open>AList.update\<close>), \<^verbatim>\<open>get\<close> is \<^const>\<open>map_of\<close> and \<^verbatim>\<open>delete\<close>
  is \<^const>\<open>AList.delete\<close>. The state also carries the document the methods act on:
  the element store, the next fresh reference and the bounding rectangle of each
  container.
\<close>

record panel =
  element :: nat
  config :: panelConfig

record panelSystem =
  panels :: "(string \<times> panel) list"
  draggingPanel :: "nat option"
  dragOffset :: "int \<times> int"
  elements :: "nat \<Rightarrow> element"
  next_element :: nat
  containerRect :: "nat \<Rightarrow> rect"

definition blank_element :: element where
  "blank_element =
     \<lparr>el_id = [], style_left = 0, style_top = 0, style_width = 0, style_height = 0,
      display_none = False, zIndex = 0, parentElement = None, dragging = False\<rparr>"

text \<open>The constructor, in a document whose containers have the given rectangles.\<close>

definition new_PanelSystem :: "(nat \<Rightarrow> rect) \<Rightarrow> panelSystem" where
  "new_PanelSystem rects =
     \<lparr>panels = [], draggingPanel = None, dragOffset = (0, 0),
      elements = (\<lambda>_. blank_element), next_element = 0, containerRect = rects\<rparr>"

definition createPanel :: "panelConfig \<Rightarrow> nat \<Rightarrow> panelSystem \<Rightarrow> panelSystem" where
  "createPanel panelConfig container s =
     (let r = next_element s;
          newEl = \<lparr>el_id = pc_id panelConfig,
                   style_left = pc_x panelConfig, style_top = pc_y panelConfig,
                   style_width = pc_width panelConfig, style_height = pc_height panelConfig,
                   display_none = pc_hidden panelConfig, zIndex = 0,
                   parentElement = Some container, dragging = False\<rparr>
      in s\<lparr>elements := (elements s)(r := newEl),
            next_element := Suc r,
            panels := AList.update (pc_id panelConfig) \<lparr>element = r, config = panelConfig\<rparr> (panels s)\<rparr>)"

definition getHighestZIndex :: "panelSystem \<Rightarrow> int" where
  "getHighestZIndex s =
     fold (\<lambda>(_, p) highest. max highest (zIndex (elements s (element p)))) (panels s) 0"

text \<open>
  \<^verbatim>\<open>startDrag(e, panel)\<close>; the panel's own bounding rectangle is what the browser
  reports at that moment and is passed in.
\<close>

definition startDrag :: "mouseEvent \<Rightarrow> rect \<Rightarrow> nat \<Rightarrow> panelSystem \<Rightarrow> panelSystem" where
  "startDrag e r p s =
     s\<lparr>draggingPanel := Some p,
       dragOffset := (clientX e - rect_left r, clientY e - rect_top r),
       elements := (elements s)(p := (elements s p)\<lparr>dragging := True, zIndex := getHighestZIndex s + 1\<rparr>)\<rparr>"

text \<open>
  \<^verbatim>\<open>drag(e)\<close>. Without a drag in progress it returns at once. A dragged element that
  has been detached has no \<^verbatim>\<open>parentElement\<close>: the handler throws before it writes
  anything, so the state stays as it is.
\<close>

definition drag :: "mouseEvent \<Rightarrow> panelSystem \<Rightarrow> panelSystem" where
  "drag e s =
     (case draggingPanel s of
        None \<Rightarrow> s
      | Some p \<Rightarrow>
          (case parentElement (elements s p) of
             None \<Rightarrow> s
           | Some container \<Rightarrow>
               (let cr = containerRect s container;
                    x0 = clientX e - rect_left cr - fst (dragOffset s);
                    y0 = clientY e - rect_top cr - snd (dragOffset s);
                    x = max 0 (min x0 (int (rect_width cr) - int (offsetWidth (elements s p))));
                    y = max 0 (min y0 (int (rect_height cr) - int (offsetHeight (elements s p))))
                in s\<lparr>elements := (elements s)(p := (elements s p)\<lparr>style_left := x, style_top := y\<rparr>)\<rparr>)))"

text \<open>\<^verbatim>\<open>stopDrag(onStateChange)\<close>: the flag says whether the callback is invoked.\<close>

definition stopDrag :: "panelSystem \<Rightarrow> panelSystem \<times> bool" where
  "stopDrag s =
     (case draggingPanel s of
        None \<Rightarrow> (s, False)
      | Some p \<Rightarrow>
          (s\<lparr>elements := (elements s)(p := (elements s p)\<lparr>dragging := False\<rparr>),
             draggingPanel := None\<rparr>, True))"

definition removePanel :: "string \<Rightarrow> panelSystem \<Rightarrow> panelSystem" where
  "removePanel panelId s =
     (case map_of (panels s) panelId of
        None \<Rightarrow> s
      | Some p \<Rightarrow>
          s\<lparr>elements := (elements s)(element p := (elements s (element p))\<lparr>parentElement := None\<rparr>),
            panels := AList.delete panelId (panels s)\<rparr>)"

text \<open>\<^verbatim>\<open>clearAllPanels(container)\<close>: the body never reads its parameter.\<close>

definition detach :: "string \<times> panel \<Rightarrow> (nat \<Rightarrow> element) \<Rightarrow> (nat \<Rightarrow> element)" where
  "detach kp h = h(element (snd kp) := (h (element (snd kp)))\<lparr>parentElement := None\<rparr>)"

definition clearAllPanels :: "nat \<Rightarrow> panelSystem \<Rightarrow> panelSystem" where
  "clearAllPanels container s =
     s\<lparr>elements := fold detach (panels s) (elements s), panels := []\<rparr>"

text \<open>
  \<^verbatim>\<open>getPanelState()\<close>: id and title from the stored config, position from the inline
  style, size from the layout box. The entries carry no \<^verbatim>\<open>hidden\<close> key.
\<close>

definition snapshotEntry :: "panelSystem \<Rightarrow> string \<times> panel \<Rightarrow> panelConfig" where
  "snapshotEntry s kp =
     (let el = elements s (element (snd kp))
      in \<lparr>pc_id = pc_id (config (snd kp)), pc_title = pc_title (config (snd kp)),
          pc_x = style_left el, pc_y = style_top el,
          pc_width = offsetWidth el, pc_height = offsetHeight el, pc_hidden = False\<rparr>)"

definition getPanelState :: "panelSystem \<Rightarrow> panelConfig list" where
  "getPanelState s = map (snapshotEntry s) (panels s)"

text \<open>\<^verbatim>\<open>restorePanelState(state, container)\<close>: one entry, then the \<^verbatim>\<open>forEach\<close>.\<close>

definition restoreOne :: "panelConfig \<Rightarrow> panelSystem \<Rightarrow> panelSystem" where
  "restoreOne panelState s =
     (case map_of (panels s) (pc_id panelState) of
        None \<Rightarrow> s
      | Some p \<Rightarrow>
          s\<lparr>elements := (elements s)(element p := (elements s (element p))
               \<lparr>style_left := pc_x panelState, style_top := pc_y panelState,
                style_width := pc_width panelState, style_height := pc_height panelState\<rparr>)\<rparr>)"

definition restorePanelState :: "panelConfig list \<Rightarrow> nat \<Rightarrow> panelSystem \<Rightarrow> panelSystem" where
  "restorePanelState state container s = fold restoreOne state s"

definition showPanel :: "string \<Rightarrow> panelSystem \<Rightarrow> panelSystem" where
  "showPanel panelId s =
     (case map_of (panels s) panelId of
        None \<Rightarrow> s
      | Some p \<Rightarrow> s\<lparr>elements := (elements s)(element p := (elements s (element p))\<lparr>display_none := False\<rparr>)\<rparr>)"

definition hidePanel :: "string \<Rightarrow> panelSystem \<Rightarrow> panelSystem" where
  "hidePanel panelId s =
     (case map_of (panels s) panelId of
        None \<Rightarrow> s
      | Some p \<Rightarrow> s\<lparr>elements := (elements s)(element p := (elements s (element p))\<lparr>display_none := True\<rparr>)\<rparr>)"

definition togglePanel :: "string \<Rightarrow> panelSystem \<Rightarrow> panelSystem" where
  "togglePanel panelId s =
     (case map_of (panels s) panelId of
        None \<Rightarrow> s
      | Some p \<Rightarrow>
          s\<lparr>elements := (elements s)(element p :=
               (elements s (element p))\<lparr>display_none := \<not> display_none (elements s (element p))\<rparr>)\<rparr>)"

text \<open>The geometry of an element, as the claims speak of it.\<close>

definition geometry :: "element \<Rightarrow> int \<times> int \<times> nat \<times> nat" where
  "geometry el = (style_left el, style_top el, style_width el, style_height el)"

section \<open>JavaScript numbers in the split computation\<close>

text \<open>
  \<^verbatim>\<open>adjustCharacterPanelLayout\<close> multiplies the container width by the fractions
  \<^verbatim>\<open>0.70\<close> and \<^verbatim>\<open>0.65\<close> in IEEE 754 double precision before \<^verbatim>\<open>Math.floor\<close>. A
  double is kept as a pair \<open>(m, e)\<close> standing for \<open>m * 2 ^ e\<close>. \<open>round_ratio n d\<close>
  rounds the positive fraction \<open>n / d\<close> to 53 significant bits, ties to the even
  mantissa: \<open>e\<close> is the binary exponent of the fraction, \<open>t\<close> the exponent of its last
  kept bit. Numbers of the size of a pixel count are far from overflow and from the
  subnormal range, which are left out.
\<close>

type_synonym double = "int \<times> int"

definition round_ratio :: "int \<Rightarrow> int \<Rightarrow> double" where
  "round_ratio n d =
     (let e0 = bitlen n - bitlen d;
          e = (if d * 2 ^ nat e0 \<le> n * 2 ^ nat (- e0) then e0 else e0 - 1);
          t = e - 52;
          N = n * 2 ^ nat (- t);
          D = d * 2 ^ nat t;
          q = N div D;
          r = N mod D
      in (if D < 2 * r \<or> (2 * r = D \<and> odd q) then q + 1 else q, t))"

definition to_double :: "int \<Rightarrow> int \<Rightarrow> double" where
  "to_double n d =
     (if n = 0 then (0, 0)
      else if n < 0 then (let (m, e) = round_ratio (- n) d in (- m, e))
      else round_ratio n d)"

definition dbl_of_int :: "int \<Rightarrow> double" where
  "dbl_of_int i = to_double i 1"

definition dbl_mul :: "double \<Rightarrow> double \<Rightarrow> double" where
  "dbl_mul a b =
     (let e = snd a + snd b
      in to_double (fst a * fst b * 2 ^ nat e) (2 ^ nat (- e)))"

definition dbl_sub :: "double \<Rightarrow> double \<Rightarrow> double" where
  "dbl_sub a b =
     (let e = min (snd a) (snd b)
      in to_double ((fst a * 2 ^ nat (snd a - e) - fst b * 2 ^ nat (snd b - e)) * 2 ^ nat e)
                   (2 ^ nat (- e)))"

definition dbl_floor :: "double \<Rightarrow> int" where
  "dbl_floor a =
     (if 0 \<le> snd a then fst a * 2 ^ nat (snd a) else fst a div 2 ^ nat (- snd a))"

section \<open>The adaptive split of the characters section\<close>

text \<open>The local helper \<^verbatim>\<open>clamp(val, min, max)\<close>.\<close>

definition clamp :: "int \<Rightarrow> int \<Rightarrow> int \<Rightarrow> int" where
  "clamp val lo hi = max lo (min hi val)"

definition maxEditorPct :: "string \<Rightarrow> double" where
  "maxEditorPct currentView =
     (if currentView = ''importance'' then to_double 65 100 else to_double 70 100)"

definition minEditorPx :: int where
  "minEditorPx = 320"

definition gapPx :: int where
  "gapPx = 10"

text \<open>The base split: \<^verbatim>\<open>Math.floor(containerWidth * (1 - maxEditorPct))\<close> and the rest.\<close>

definition baseListWidth :: "string \<Rightarrow> nat \<Rightarrow> int" where
  "baseListWidth currentView containerWidth =
     dbl_floor (dbl_mul (dbl_of_int (int containerWidth))
                        (dbl_sub (dbl_of_int 1) (maxEditorPct currentView)))"

definition baseEditorWidth :: "string \<Rightarrow> nat \<Rightarrow> int" where
  "baseEditorWidth currentView containerWidth =
     int containerWidth - baseListWidth currentView containerWidth - gapPx"

text \<open>The upper bound of the clamp: \<^verbatim>\<open>Math.floor(containerWidth * maxEditorPct)\<close>.\<close>

definition editorWidthCap :: "string \<Rightarrow> nat \<Rightarrow> int" where
  "editorWidthCap currentView containerWidth =
     dbl_floor (dbl_mul (dbl_of_int (int containerWidth)) (maxEditorPct currentView))"

definition editorWidth :: "string \<Rightarrow> nat \<Rightarrow> int" where
  "editorWidth currentView containerWidth =
     clamp (baseEditorWidth currentView containerWidth) minEditorPx
           (editorWidthCap currentView containerWidth)"

definition listWidth :: "string \<Rightarrow> nat \<Rightarrow> int" where
  "listWidth currentView containerWidth =
     clamp (int containerWidth - editorWidth currentView containerWidth - gapPx) 280
           (int containerWidth)"

section \<open>SetupDialog\<close>

text \<open>
  The dialog starts with every panel id selected. A \<^verbatim>\<open>change\<close> event of a checkbox
  carries the panel id and the new checked state; \<^verbatim>\<open>Continue\<close> resolves with the
  available panels whose id is selected. What the user does is the list of change
  events before \<^verbatim>\<open>Continue\<close>.
\<close>

definition checkboxChange :: "string \<times> bool \<Rightarrow> string list \<Rightarrow> string list" where
  "checkboxChange ev selectedPanels =
     (if snd ev
      then (if fst ev \<in> set selectedPanels then selectedPanels else selectedPanels @ [fst ev])
      else filter (\<lambda>i. i \<noteq> fst ev) selectedPanels)"

definition SetupDialog_show :: "panelConfig list \<Rightarrow> (string \<times> bool) list \<Rightarrow> panelConfig list" where
  "SetupDialog_show availablePanels changes =
     (let selectedPanels = fold checkboxChange changes (map pc_id availablePanels)
      in filter (\<lambda>p. pc_id p \<in> set selectedPanels) availablePanels)"

section \<open>App\<close>

text \<open>
  What \<^verbatim>\<open>saveLayoutState\<close> is handed (the project list is opaque to the layout code
  and left out).
\<close>

record savedState =
  panelLayouts :: "string \<Rightarrow> panelConfig list option"
  st_setupSections :: "string \<Rightarrow> bool option"
  st_sectionPanelSelections :: "string \<Rightarrow> string list option"

text \<open>
  \<^verbatim>\<open>sections\<close> maps a section name to the \<^verbatim>\<open>.layout-container\<close> of its section
  element. \<^verbatim>\<open>currentCharacterView\<close> is the global \<^verbatim>\<open>window.currentCharacterView\<close>.
  \<^verbatim>\<open>savedStates\<close> collects the states handed to \<^verbatim>\<open>saveLayoutState\<close>, newest first.
\<close>

record app =
  currentSection :: "string option"
  panelSystem :: panelSystem
  isProjectLoaded :: bool
  sections :: "string \<Rightarrow> nat option"
  savedLayouts :: "string \<Rightarrow> panelConfig list option"
  setupSections :: "string \<Rightarrow> bool option"
  sectionPanelSelections :: "string \<Rightarrow> string list option"
  currentCharacterView :: "string option"
  savedStates :: "savedState list"

definition new_App :: "(nat \<Rightarrow> rect) \<Rightarrow> app" where
  "new_App rects =
     \<lparr>currentSection = None,
      panelSystem = new_PanelSystem rects,
      isProjectLoaded = False,
      sections = [''writing'' \<mapsto> 0, ''plotting'' \<mapsto> 1, ''characters'' \<mapsto> 2,
                  ''worldbuilding'' \<mapsto> 3, ''research'' \<mapsto> 4],
      savedLayouts = Map.empty,
      setupSections = Map.empty,
      sectionPanelSelections = Map.empty,
      currentCharacterView = None,
      savedStates = []\<rparr>"

text \<open>
  \<^verbatim>\<open>saveProjectState()\<close>. \<^verbatim>\<open>!this.currentSection\<close> holds for \<^verbatim>\<open>null\<close> and for the empty
  string.
\<close>

definition saveProjectState :: "app \<Rightarrow> app" where
  "saveProjectState a =
     (case currentSection a of
        None \<Rightarrow> a
      | Some sec \<Rightarrow>
          if sec = [] then a
          else
            (let currentLayout = getPanelState (panelSystem a);
                 a1 = (if currentLayout \<noteq> []
                       then a\<lparr>savedLayouts := (savedLayouts a)(sec \<mapsto> currentLayout)\<rparr>
                       else a)
             in a1\<lparr>savedStates :=
                    \<lparr>panelLayouts = savedLayouts a1,
                     st_setupSections = setupSections a1,
                     st_sectionPanelSelections = sectionPanelSelections a1\<rparr> # savedStates a1\<rparr>))"

text \<open>
  The choice of \<^verbatim>\<open>panelConfigs\<close> in \<^verbatim>\<open>loadSection\<close>: the saved layout when it is
  non-empty; else the setup dialog on the template when the section is not set up;
  else the template filtered by the recorded selection. \<open>templates\<close> is the global
  \<^verbatim>\<open>layouts\<close>, \<open>changes\<close> what the user does in the dialog if it is shown.
\<close>

definition choosePanels ::
  "(string \<Rightarrow> panelConfig list option) \<Rightarrow> (string \<times> bool) list \<Rightarrow> string \<Rightarrow> app
     \<Rightarrow> panelConfig list option \<times> app" where
  "choosePanels templates changes sectionName a =
     (if (case savedLayouts a sectionName of None \<Rightarrow> False | Some saved \<Rightarrow> saved \<noteq> [])
      then (savedLayouts a sectionName,
            if setupSections a sectionName \<noteq> Some True
            then a\<lparr>setupSections := (setupSections a)(sectionName \<mapsto> True)\<rparr>
            else a)
      else if setupSections a sectionName \<noteq> Some True
      then (case templates sectionName of
              None \<Rightarrow> (None, a)
            | Some tpanels \<Rightarrow>
                (let panelConfigs = SetupDialog_show tpanels changes;
                     selectedPanelIds = map pc_id panelConfigs
                 in (Some panelConfigs,
                     a\<lparr>setupSections := (setupSections a)(sectionName \<mapsto> True),
                       sectionPanelSelections :=
                         (sectionPanelSelections a)(sectionName \<mapsto> selectedPanelIds),
                       savedLayouts := (savedLayouts a)(sectionName \<mapsto> panelConfigs)\<rparr>)))
      else (let selectedIds = (case sectionPanelSelections a sectionName of
                                 None \<Rightarrow> [] | Some ids \<Rightarrow> ids)
            in (case templates sectionName of
                  None \<Rightarrow> (None, a)
                | Some tpanels \<Rightarrow>
                    (Some (filter (\<lambda>p. pc_id p \<in> set selectedIds) tpanels), a))))"

definition createPanels :: "panelConfig list \<Rightarrow> nat \<Rightarrow> panelSystem \<Rightarrow> panelSystem" where
  "createPanels panelConfigs container s = fold (\<lambda>c. createPanel c container) panelConfigs s"

text \<open>
  \<^verbatim>\<open>loadSection(sectionName)\<close>. The save that it schedules 50 ms later is
  \<^const>\<open>saveProjectState\<close>, run on the state it leaves.
\<close>

definition loadSection ::
  "(string \<Rightarrow> panelConfig list option) \<Rightarrow> (string \<times> bool) list \<Rightarrow> string \<Rightarrow> app \<Rightarrow> app" where
  "loadSection templates changes sectionName a =
     (case sections a sectionName of
        None \<Rightarrow> a
      | Some container \<Rightarrow>
          (let a1 = a\<lparr>panelSystem := clearAllPanels container (panelSystem a)\<rparr>;
               chosen = choosePanels templates changes sectionName a1;
               a2 = snd chosen
           in (case fst chosen of
                 None \<Rightarrow> a2
               | Some panelConfigs \<Rightarrow>
                   if panelConfigs = [] then a2
                   else a2\<lparr>panelSystem := createPanels panelConfigs container (panelSystem a2)\<rparr>)))"

text \<open>
  \<^verbatim>\<open>switchSection(sectionName)\<close>. Without a loaded project it returns at once. With
  a current section (a non-empty name) it first takes the \<^verbatim>\<open>active\<close> class off
  \<^verbatim>\<open>this.sections[this.currentSection]\<close>; when that section has no element the
  property access throws a \<^verbatim>\<open>TypeError\<close> before \<^verbatim>\<open>currentSection\<close> is assigned and
  before \<^verbatim>\<open>loadSection\<close> runs, so the app stays as it was and the call fails. The
  \<^verbatim>\<open>active\<close> classes of sections and buttons are presentation only.
\<close>

datatype error = TypeError

definition switchSection ::
  "(string \<Rightarrow> panelConfig list option) \<Rightarrow> (string \<times> bool) list \<Rightarrow> string \<Rightarrow> app
     \<Rightarrow> error + app" where
  "switchSection templates changes sectionName a =
     (if \<not> isProjectLoaded a then Inr a
      else if (case currentSection a of
                 None \<Rightarrow> False
               | Some cur \<Rightarrow> cur \<noteq> [] \<and> sections a cur = None)
      then Inl TypeError
      else Inr (loadSection templates changes sectionName (a\<lparr>currentSection := Some sectionName\<rparr>)))"

text \<open>
  \<^verbatim>\<open>document.getElementById\<close>: the first attached element with the id; the panels of
  one container are in the document in the order of their creation.
\<close>

definition getElementById :: "string \<Rightarrow> panelSystem \<Rightarrow> nat option" where
  "getElementById i s =
     find (\<lambda>r. el_id (elements s r) = i \<and> parentElement (elements s r) \<noteq> None)
          [0..<next_element s]"

text \<open>
  \<^verbatim>\<open>adjustCharacterPanelLayout(editorVisible)\<close>: the geometry it assigns. The container
  is measured by its rectangle; the padding and the header's minimum height are
  presentation only.
\<close>

definition adjustCharacterPanelLayout :: "bool \<Rightarrow> app \<Rightarrow> app" where
  "adjustCharacterPanelLayout editorVisible a =
     (case getElementById ''character-list'' (panelSystem a) of
        None \<Rightarrow> a
      | Some listPanel \<Rightarrow>
          (case sections a ''characters'' of
             None \<Rightarrow> a
           | Some container \<Rightarrow>
               (let s = panelSystem a;
                    editorPanel = getElementById ''character-editor'' s;
                    containerWidth = rect_width (containerRect s container);
                    containerHeight = rect_height (containerRect s container);
                    currentView = (case currentCharacterView a of
                                     None \<Rightarrow> ''list''
                                   | Some v \<Rightarrow> if v = [] then ''list'' else v)
                in (case (if editorVisible then editorPanel else None) of
                      Some ed \<Rightarrow>
                        (let lw = listWidth currentView containerWidth;
                             ew = editorWidth currentView containerWidth;
                             h1 = (elements s)(listPanel := (elements s listPanel)
                                    \<lparr>style_left := 0, style_top := 0,
                                     style_width := nat lw, style_height := containerHeight\<rparr>);
                             h2 = h1(ed := (h1 ed)
                                    \<lparr>style_left := lw + gapPx, style_top := 0,
                                     style_width := nat ew, style_height := containerHeight\<rparr>)
                         in a\<lparr>panelSystem := s\<lparr>elements := h2\<rparr>\<rparr>)
                    | None \<Rightarrow>
                        a\<lparr>panelSystem := s\<lparr>elements := (elements s)(listPanel := (elements s listPanel)
                                    \<lparr>style_left := 0, style_top := 0,
                                     style_width := containerWidth,
                                     style_height := containerHeight\<rparr>)\<rparr>\<rparr>))))"

section \<open>Reading the store\<close>

text \<open>The geometry of the instance tracked under an id, if there is one.\<close>

definition trackedGeometry :: "panelSystem \<Rightarrow> string \<Rightarrow> (int \<times> int \<times> nat \<times> nat) option" where
  "trackedGeometry s i = map_option (\<lambda>p. geometry (elements s (element p))) (map_of (panels s) i)"

text \<open>
  What \<^verbatim>\<open>restorePanelState\<close> does to one element: an entry writes to the element
  \<open>r\<close> when its id is tracked with that element; the write sets the four style
  lengths; among several entries with one id the last one stands.
\<close>

definition writesTo :: "panelSystem \<Rightarrow> nat \<Rightarrow> panelConfig \<Rightarrow> bool" where
  "writesTo s r e = (map_option element (map_of (panels s) (pc_id e)) = Some r)"

definition setGeometry :: "panelConfig \<Rightarrow> element \<Rightarrow> element" where
  "setGeometry e el = el\<lparr>style_left := pc_x e, style_top := pc_y e,
                         style_width := pc_width e, style_height := pc_height e\<rparr>"

definition lastEntry :: "panelConfig list \<Rightarrow> string \<Rightarrow> panelConfig option" where
  "lastEntry state i = find (\<lambda>e. pc_id e = i) (rev state)"

section \<open>Reading the tracked panels\<close>

text \<open>
  The configs and the element geometries of the tracked instances, in map order, and
  the geometry a config asks for.
\<close>

definition configGeometry :: "panelConfig \<Rightarrow> int \<times> int \<times> nat \<times> nat" where
  "configGeometry P = (pc_x P, pc_y P, pc_width P, pc_height P)"

definition trackedConfigs :: "panelSystem \<Rightarrow> panelConfig list" where
  "trackedConfigs s = map (\<lambda>kp. config (snd kp)) (panels s)"

definition trackedGeometries :: "panelSystem \<Rightarrow> (int \<times> int \<times> nat \<times> nat) list" where
  "trackedGeometries s = map (\<lambda>kp. geometry (elements s (element (snd kp)))) (panels s)"

text \<open>
  What \<^verbatim>\<open>getPanelState\<close> reports for a panel freshly created from a config: a hidden
  panel has no layout box.
\<close>

definition rendered :: "panelConfig \<Rightarrow> panelConfig" where
  "rendered P = \<lparr>pc_id = pc_id P, pc_title = pc_title P, pc_x = pc_x P, pc_y = pc_y P,
                 pc_width = (if pc_hidden P then 0 else pc_width P),
                 pc_height = (if pc_hidden P then 0 else pc_height P), pc_hidden = False\<rparr>"

text \<open>
  The first visit of the setup scenario: \<^verbatim>\<open>loadSection\<close> runs for the section and the
  user unchecks panel \<^verbatim>\<open>b\<close> before \<^verbatim>\<open>Continue\<close>.
\<close>

definition firstVisit :: "(string \<Rightarrow> panelConfig list option) \<Rightarrow> string \<Rightarrow> app \<Rightarrow> app" where
  "firstVisit templates x a = loadSection templates [(''b'', False)] x a"

section \<open>Pointer trajectories\<close>

text \<open>
  Every \<^verbatim>\<open>mousemove\<close> runs \<^verbatim>\<open>drag\<close>, once for each listener that \<^verbatim>\<open>createPanel\<close>
  has registered on the document; the runs after the first find the state they would
  write. A trajectory is the list of the events, oldest first.
\<close>

definition dragAlong :: "mouseEvent list \<Rightarrow> panelSystem \<Rightarrow> panelSystem" where
  "dragAlong es s = fold drag es s"

text \<open>The positions a drag is said never to produce, for element \<open>p\<close> in container \<open>c\<close>.\<close>

definition outsideContainer :: "panelSystem \<Rightarrow> nat \<Rightarrow> nat \<Rightarrow> bool" where
  "outsideContainer s p c =
     (let el = elements s p; cr = containerRect s c
      in style_left el < 0 \<or> style_top el < 0
         \<or> int (rect_width cr) < style_left el + int (offsetWidth el)
         \<or> int (rect_height cr) < style_top el + int (offsetHeight el))"

section \<open>Example states\<close>

text \<open>A 500 by 300 panel in a 400 by 200 container, picked up by its header.\<close>

definition oversizeDrag :: panelSystem where
  "oversizeDrag =
     startDrag \<lparr>clientX = 30, clientY = 12\<rparr>
       \<lparr>rect_left = 10, rect_top = 10, rect_width = 500, rect_height = 300\<rparr> 0
       (createPanel (mkPanel ''big'' ''Big'' 0 0 500 300 False) 7
         (new_PanelSystem (\<lambda>_. \<lparr>rect_left = 10, rect_top = 10, rect_width = 400, rect_height = 200\<rparr>)))"

text \<open>A 300 by 100 panel in the same container.\<close>

definition fittingDrag :: panelSystem where
  "fittingDrag =
     startDrag \<lparr>clientX = 30, clientY = 12\<rparr>
       \<lparr>rect_left = 10, rect_top = 10, rect_width = 300, rect_height = 100\<rparr> 0
       (createPanel (mkPanel ''small'' ''Small'' 0 0 300 100 False) 7
         (new_PanelSystem (\<lambda>_. \<lparr>rect_left = 10, rect_top = 10, rect_width = 400, rect_height = 200\<rparr>)))"

text \<open>Containers of 1200 by 600 at the origin.\<close>

definition docRects :: "nat \<Rightarrow> rect" where
  "docRects c = \<lparr>rect_left = 0, rect_top = 0, rect_width = 1200, rect_height = 600\<rparr>"

text \<open>One tracked panel \<^verbatim>\<open>a\<close>.\<close>

definition storeA :: panelSystem where
  "storeA = createPanel (mkPanel ''a'' ''A'' 0 0 100 100 False) 0 (new_PanelSystem docRects)"

text \<open>Panel \<^verbatim>\<open>a\<close> in container 1 and panel \<^verbatim>\<open>b\<close> in container 2.\<close>

definition twoContainers :: panelSystem where
  "twoContainers = createPanel (mkPanel ''b'' ''B'' 10 20 30 40 False) 2
                    (createPanel (mkPanel ''a'' ''A'' 0 0 100 100 False) 1 (new_PanelSystem docRects))"

text \<open>The two panels of the characters template, the editor hidden.\<close>

definition charactersStore :: panelSystem where
  "charactersStore =
     createPanels [mkPanel ''character-list'' ''Character List'' 0 0 1200 600 False,
                   mkPanel ''character-editor'' ''Character Details'' 910 0 500 600 True] 2
       (new_PanelSystem docRects)"

text \<open>A saved state with two entries for \<^verbatim>\<open>a\<close> and one for an id that is not tracked.\<close>

definition savedAZ :: "panelConfig list" where
  "savedAZ = [mkPanel ''a'' ''A'' 1 2 3 4 False,
              mkPanel ''zz'' ''Gone'' 7 7 7 7 False,
              mkPanel ''a'' ''A'' 5 6 70 80 False]"

text \<open>An app with no current section, and one in a section with a saved layout and no panels.\<close>

definition idleApp :: app where
  "idleApp = new_App docRects"

definition keptLayoutApp :: app where
  "keptLayoutApp =
     (new_App docRects)\<lparr>currentSection := Some ''writing'',
        savedLayouts := [''writing'' \<mapsto> [mkPanel ''editor'' ''Editor'' 0 0 800 600 False]]\<rparr>"

text \<open>Templates for the setup and the fallback scenarios.\<close>

definition abcTemplates :: "string \<Rightarrow> panelConfig list option" where
  "abcTemplates sectionName =
     (if sectionName = ''writing''
      then Some [mkPanel ''a'' ''A'' 0 0 400 300 False,
                 mkPanel ''b'' ''B'' 410 0 200 300 False,
                 mkPanel ''c'' ''C'' 0 310 610 200 False]
      else None)"

definition abcdTemplates :: "string \<Rightarrow> panelConfig list option" where
  "abcdTemplates sectionName =
     (if sectionName = ''writing''
      then Some [mkPanel ''a'' ''A'' 0 0 400 300 False,
                 mkPanel ''b'' ''B'' 410 0 200 300 False,
                 mkPanel ''c'' ''C'' 0 310 610 200 False,
                 mkPanel ''d'' ''D'' 620 0 100 510 False]
      else None)"

text \<open>
  An app with a loaded project whose current section is the writing section, not yet
  set up, and one set up with a selection but no saved layout.
\<close>

definition loadedApp :: app where
  "loadedApp = (new_App docRects)\<lparr>isProjectLoaded := True, currentSection := Some ''writing''\<rparr>"

definition fallbackApp :: app where
  "fallbackApp =
     (new_App docRects)\<lparr>isProjectLoaded := True,
        setupSections := [''writing'' \<mapsto> True],
        sectionPanelSelections := [''writing'' \<mapsto> [''a'', ''c'']]\<rparr>"

text \<open>
  The characters section with both template panels, the editor shown, the list view
  current, in a container 1200 wide.
\<close>

definition charactersApp :: app where
  "charactersApp =
     (new_App docRects)\<lparr>currentSection := Some ''characters'',
        isProjectLoaded := True,
        panelSystem := showPanel ''character-editor'' charactersStore,
        currentCharacterView := Some ''list''\<rparr>"

section \<open>Dragging\<close>

lemma drag_frame:
  "draggingPanel (drag e s) = draggingPanel s"
  "dragOffset (drag e s) = dragOffset s"
  "containerRect (drag e s) = containerRect s"
  "panels (drag e s) = panels s"
  "next_element (drag e s) = next_element s"
  by (simp_all add: drag_def Let_def split: option.splits)

lemma drag_element_frame:
  "parentElement (elements (drag e s) r) = parentElement (elements s r)"
  "offsetWidth (elements (drag e s) r) = offsetWidth (elements s r)"
  "offsetHeight (elements (drag e s) r) = offsetHeight (elements s r)"
  by (simp_all add: drag_def Let_def offsetWidth_def offsetHeight_def split: option.splits)

lemma drag_position:
  assumes "draggingPanel s = Some p" and "parentElement (elements s p) = Some c"
  shows "style_left (elements (drag e s) p) =
           max 0 (min (clientX e - rect_left (containerRect s c) - fst (dragOffset s))
                      (int (rect_width (containerRect s c)) - int (offsetWidth (elements s p))))"
    and "style_top (elements (drag e s) p) =
           max 0 (min (clientY e - rect_top (containerRect s c) - snd (dragOffset s))
                      (int (rect_height (containerRect s c)) - int (offsetHeight (elements s p))))"
  using assms by (simp_all add: drag_def Let_def)

lemma dragAlong_frame:
  "draggingPanel (dragAlong es s) = draggingPanel s"
  "dragOffset (dragAlong es s) = dragOffset s"
  "containerRect (dragAlong es s) = containerRect s"
  "parentElement (elements (dragAlong es s) r) = parentElement (elements s r)"
  "offsetWidth (elements (dragAlong es s) r) = offsetWidth (elements s r)"
  "offsetHeight (elements (dragAlong es s) r) = offsetHeight (elements s r)"
  unfolding dragAlong_def
  by (induction es arbitrary: s) (simp_all add: drag_frame drag_element_frame)

lemma dragAlong_snoc: "dragAlong (es @ [e]) s = drag e (dragAlong es s)"
  by (simp add: dragAlong_def)

text \<open>Running the handler again on the same event changes nothing more.\<close>

lemma drag_idem: "drag e (drag e s) = drag e s"
proof (cases "draggingPanel s")
  case None
  then show ?thesis by (simp add: drag_def)
next
  case (Some p)
  show ?thesis
  proof (cases "parentElement (elements s p)")
    case None
    with Some show ?thesis by (simp add: drag_def)
  next
    case c: (Some c)
    let ?t = "drag e s"
    have d: "draggingPanel ?t = Some p"
      by (simp add: drag_frame Some)
    have q: "parentElement (elements ?t p) = Some c"
      by (simp add: drag_element_frame c)
    have other: "elements ?t r = elements s r" if "r \<noteq> p" for r
      using that by (simp add: drag_def Some c Let_def)
    have keep: "drag e t = t"
      if "draggingPanel t = Some p" and "parentElement (elements t p) = Some c"
        and "style_left (elements t p) = style_left (elements (drag e t) p)"
        and "style_top (elements t p) = style_top (elements (drag e t) p)" for t
    proof -
      have "elements (drag e t) = elements t"
      proof
        fix r
        show "elements (drag e t) r = elements t r"
        proof (cases "r = p")
          case True
          have "elements (drag e t) p =
                  (elements t p)\<lparr>style_left := style_left (elements (drag e t) p),
                                 style_top := style_top (elements (drag e t) p)\<rparr>"
            by (simp add: drag_def that(1,2) Let_def)
          also have "\<dots> = elements t p"
            by (simp add: that(3,4) [symmetric])
          finally show ?thesis by (simp add: True)
        next
          case False
          then show ?thesis by (simp add: drag_def that(1,2) Let_def)
        qed
      qed
      then show ?thesis
        by (simp add: panelSystem.equality drag_frame)
    qed
    have "style_left (elements ?t p) = style_left (elements (drag e ?t) p)"
      "style_top (elements ?t p) = style_top (elements (drag e ?t) p)"
      by (simp_all add: drag_position [OF d q] drag_position [OF Some c] drag_frame
          drag_element_frame)
    with d q show ?thesis by (rule keep)
  qed
qed

lemma oversizeDrag_facts:
  "draggingPanel oversizeDrag = Some 0"
  "parentElement (elements oversizeDrag 0) = Some 7"
  "dragOffset oversizeDrag = (20, 2)"
  "containerRect oversizeDrag 7 = \<lparr>rect_left = 10, rect_top = 10, rect_width = 400, rect_height = 200\<rparr>"
  "offsetWidth (elements oversizeDrag 0) = 500"
  "offsetHeight (elements oversizeDrag 0) = 300"
  by (simp_all add: oversizeDrag_def startDrag_def createPanel_def new_PanelSystem_def mkPanel_def
      offsetWidth_def offsetHeight_def Let_def)

lemma fittingDrag_facts:
  "draggingPanel fittingDrag = Some 0"
  "parentElement (elements fittingDrag 0) = Some 7"
  "dragOffset fittingDrag = (20, 2)"
  "containerRect fittingDrag 7 = \<lparr>rect_left = 10, rect_top = 10, rect_width = 400, rect_height = 200\<rparr>"
  "offsetWidth (elements fittingDrag 0) = 300"
  "offsetHeight (elements fittingDrag 0) = 100"
  by (simp_all add: fittingDrag_def startDrag_def createPanel_def new_PanelSystem_def mkPanel_def
      offsetWidth_def offsetHeight_def Let_def)

text \<open>
  C2, as stated, fails: a panel wider and taller than its container is put at the
  origin and reaches past the right and bottom edges.
\<close>

theorem drag_oversize_leaves_container:
  "outsideContainer (dragAlong [\<lparr>clientX = 950, clientY = - 40\<rparr>] oversizeDrag) 0 7"
proof -
  let ?e = "\<lparr>clientX = 950, clientY = - 40\<rparr>"
  have "style_left (elements (drag ?e oversizeDrag) 0) = 0"
    by (simp add: drag_position(1) [OF oversizeDrag_facts(1,2)] oversizeDrag_facts)
  moreover have "offsetWidth (elements (drag ?e oversizeDrag) 0) = 500"
    by (simp add: drag_element_frame oversizeDrag_facts)
  moreover have "rect_width (containerRect (drag ?e oversizeDrag) 7) = 400"
    by (simp add: drag_frame oversizeDrag_facts)
  ultimately show ?thesis
    by (simp add: outsideContainer_def dragAlong_def Let_def)
qed

text \<open>
  C2, amended: along every pointer trajectory, after each move the dragged panel's
  position is non-negative on both axes; on each axis on which the panel is no
  larger than the container its far edge stays within the container; and on each axis
  on which the panel is larger than the container it is placed at 0.
\<close>

theorem drag_trajectory_bounds:
  assumes "draggingPanel s = Some p" and "parentElement (elements s p) = Some c"
    and "0 < n" and "n \<le> length es"
  shows "0 \<le> style_left (elements (dragAlong (take n es) s) p)
       \<and> 0 \<le> style_top (elements (dragAlong (take n es) s) p)
       \<and> (offsetWidth (elements s p) \<le> rect_width (containerRect s c) \<longrightarrow>
            style_left (elements (dragAlong (take n es) s) p)
              + int (offsetWidth (elements (dragAlong (take n es) s) p))
            \<le> int (rect_width (containerRect (dragAlong (take n es) s) c)))
       \<and> (offsetHeight (elements s p) \<le> rect_height (containerRect s c) \<longrightarrow>
            style_top (elements (dragAlong (take n es) s) p)
              + int (offsetHeight (elements (dragAlong (take n es) s) p))
            \<le> int (rect_height (containerRect (dragAlong (take n es) s) c)))
       \<and> (rect_width (containerRect s c) < offsetWidth (elements s p) \<longrightarrow>
            style_left (elements (dragAlong (take n es) s) p) = 0)
       \<and> (rect_height (containerRect s c) < offsetHeight (elements s p) \<longrightarrow>
            style_top (elements (dragAlong (take n es) s) p) = 0)"
proof -
  from assms(3,4) have "take n es \<noteq> []" by auto
  then obtain es' e where split: "take n es = es' @ [e]"
    by (meson rev_exhaust)
  let ?t = "dragAlong es' s"
  have d: "draggingPanel ?t = Some p"
    by (simp add: dragAlong_frame assms(1))
  have q: "parentElement (elements ?t p) = Some c"
    by (simp add: dragAlong_frame assms(2))
  have step: "dragAlong (take n es) s = drag e ?t"
    by (simp add: split dragAlong_snoc)
  have clamp: "0 \<le> max 0 (min a (int w - int v))"
    "v \<le> w \<Longrightarrow> max 0 (min a (int w - int v)) + int v \<le> int w"
    "w < v \<Longrightarrow> max 0 (min a (int w - int v)) = 0" for a :: int and v w :: nat
    by simp_all
  show ?thesis
    unfolding step
    by (simp add: drag_position [OF d q] drag_frame drag_element_frame dragAlong_frame clamp
        del: max.bounded_iff min.bounded_iff)
qed

theorem drag_trajectory_bounds_witness:
  "draggingPanel fittingDrag = Some 0
   \<and> parentElement (elements fittingDrag 0) = Some 7
   \<and> offsetWidth (elements fittingDrag 0) \<le> rect_width (containerRect fittingDrag 7)
   \<and> offsetHeight (elements fittingDrag 0) \<le> rect_height (containerRect fittingDrag 7)
   \<and> \<not> outsideContainer
         (dragAlong [\<lparr>clientX = - 500, clientY = 90\<rparr>, \<lparr>clientX = 950, clientY = 4000\<rparr>] fittingDrag) 0 7
   \<and> draggingPanel oversizeDrag = Some 0
   \<and> parentElement (elements oversizeDrag 0) = Some 7
   \<and> rect_width (containerRect oversizeDrag 7) < offsetWidth (elements oversizeDrag 0)
   \<and> rect_height (containerRect oversizeDrag 7) < offsetHeight (elements oversizeDrag 0)
   \<and> style_left (elements
         (dragAlong [\<lparr>clientX = - 500, clientY = 90\<rparr>, \<lparr>clientX = 950, clientY = 4000\<rparr>] oversizeDrag) 0) = 0
   \<and> style_top (elements
         (dragAlong [\<lparr>clientX = - 500, clientY = 90\<rparr>, \<lparr>clientX = 950, clientY = 4000\<rparr>] oversizeDrag) 0) = 0"
proof -
  let ?es = "[\<lparr>clientX = - 500, clientY = 90\<rparr>, \<lparr>clientX = 950, clientY = 4000\<rparr>]"
  have n: "(0::nat) < 2" "2 \<le> length ?es" by simp_all
  have t: "take 2 ?es = ?es" by simp
  have fits: "\<not> outsideContainer (dragAlong ?es fittingDrag) 0 7"
    using drag_trajectory_bounds [OF fittingDrag_facts(1,2) n, unfolded t]
    by (simp add: outsideContainer_def Let_def fittingDrag_facts dragAlong_frame not_less)
  have over: "style_left (elements (dragAlong ?es oversizeDrag) 0) = 0
      \<and> style_top (elements (dragAlong ?es oversizeDrag) 0) = 0"
    using drag_trajectory_bounds [OF oversizeDrag_facts(1,2) n, unfolded t]
    by (simp add: oversizeDrag_facts)
  from fits over show ?thesis
    by (simp add: fittingDrag_facts oversizeDrag_facts)
qed

text \<open>
  C10: when the dragged panel is wider (taller) than its container, a move puts its
  left (top) coordinate at exactly 0; and no move makes a coordinate negative.
\<close>

theorem drag_lower_bound_first:
  assumes "draggingPanel s = Some p" and "parentElement (elements s p) = Some c"
  shows "(rect_width (containerRect s c) < offsetWidth (elements s p)
            \<longrightarrow> style_left (elements (drag e s) p) = 0)
       \<and> (rect_height (containerRect s c) < offsetHeight (elements s p)
            \<longrightarrow> style_top (elements (drag e s) p) = 0)
       \<and> 0 \<le> style_left (elements (drag e s) p)
       \<and> 0 \<le> style_top (elements (drag e s) p)"
  by (simp add: drag_position [OF assms])

theorem drag_lower_bound_first_witness:
  "draggingPanel oversizeDrag = Some 0
   \<and> parentElement (elements oversizeDrag 0) = Some 7
   \<and> rect_width (containerRect oversizeDrag 7) < offsetWidth (elements oversizeDrag 0)
   \<and> rect_height (containerRect oversizeDrag 7) < offsetHeight (elements oversizeDrag 0)
   \<and> style_left (elements (drag \<lparr>clientX = 950, clientY = - 40\<rparr> oversizeDrag) 0) = 0
   \<and> style_top (elements (drag \<lparr>clientX = 950, clientY = - 40\<rparr> oversizeDrag) 0) = 0"
proof -
  from drag_lower_bound_first [OF oversizeDrag_facts(1,2), of "\<lparr>clientX = 950, clientY = - 40\<rparr>"]
  show ?thesis
    by (simp add: oversizeDrag_facts)
qed

section \<open>The panel store\<close>

lemma restoreOne_frame:
  "panels (restoreOne e s) = panels s"
  "next_element (restoreOne e s) = next_element s"
  "draggingPanel (restoreOne e s) = draggingPanel s"
  "dragOffset (restoreOne e s) = dragOffset s"
  "containerRect (restoreOne e s) = containerRect s"
  by (simp_all add: restoreOne_def split: option.splits)

lemma restoreOne_elements:
  "elements (restoreOne e s) r =
     (if writesTo s r e then setGeometry e (elements s r) else elements s r)"
  by (auto simp: restoreOne_def writesTo_def setGeometry_def split: option.splits)

lemma restore_frame:
  "panels (restorePanelState state c s) = panels s"
  "next_element (restorePanelState state c s) = next_element s"
  "draggingPanel (restorePanelState state c s) = draggingPanel s"
  "dragOffset (restorePanelState state c s) = dragOffset s"
  "containerRect (restorePanelState state c s) = containerRect s"
  unfolding restorePanelState_def
  by (induction state arbitrary: s) (simp_all add: restoreOne_frame)

lemma writesTo_restore: "writesTo (restorePanelState state c s) r e = writesTo s r e"
  by (simp add: writesTo_def restore_frame)

lemma setGeometry_twice: "setGeometry e (setGeometry e' el) = setGeometry e el"
  by (simp add: setGeometry_def)

lemma restore_snoc:
  "restorePanelState (state @ [e]) c s = restoreOne e (restorePanelState state c s)"
  by (simp add: restorePanelState_def)

lemma restore_elements:
  "elements (restorePanelState state c s) r =
     (case find (writesTo s r) (rev state) of
        None \<Rightarrow> elements s r
      | Some e \<Rightarrow> setGeometry e (elements s r))"
proof (induction state rule: rev_induct)
  case Nil
  show ?case by (simp add: restorePanelState_def)
next
  case (snoc e state)
  show ?case
    by (simp add: restore_snoc restoreOne_elements writesTo_restore snoc setGeometry_twice
        split: option.splits)
qed

lemma tracked_element_inj:
  assumes "distinct (map (element \<circ> snd) ps)"
    and "map_of ps i = Some p" and "map_of ps j = Some q" and "element p = element q"
  shows "i = j"
proof -
  have ip: "(i, p) \<in> set ps" using assms(2) by (rule map_of_SomeD)
  have jq: "(j, q) \<in> set ps" using assms(3) by (rule map_of_SomeD)
  have inj: "inj_on (element \<circ> snd) (set ps)"
    using assms(1) by (simp add: distinct_map)
  have eq: "(element \<circ> snd) (i, p) = (element \<circ> snd) (j, q)"
    using assms(4) by simp
  from inj eq ip jq have "(i, p) = (j, q)"
    by (rule inj_onD)
  then show ?thesis by simp
qed

lemma writesTo_tracked:
  assumes "distinct (map (element \<circ> snd) (panels s))" and "map_of (panels s) i = Some p"
  shows "writesTo s (element p) e = (pc_id e = i)"
proof
  assume "writesTo s (element p) e"
  then obtain q where q: "map_of (panels s) (pc_id e) = Some q" "element q = element p"
    unfolding writesTo_def by (cases "map_of (panels s) (pc_id e)") simp_all
  from tracked_element_inj [OF assms(1) q(1) assms(2) q(2)] show "pc_id e = i" .
next
  assume "pc_id e = i"
  with assms(2) show "writesTo s (element p) e"
    by (simp add: writesTo_def)
qed

text \<open>
  C5: \<^verbatim>\<open>restorePanelState\<close> leaves the map of tracked instances as it is and creates
  no element. In a store where each tracked instance has its own element, the element
  of an instance whose id has an entry in the state gets the geometry of the last such
  entry and is otherwise unchanged; the element of an instance whose id has no entry is
  unchanged; and so is every element that is not tracked, so entries with an id that is
  not tracked have no effect.
\<close>

theorem restore_overwrites_matching:
  assumes "distinct (map (element \<circ> snd) (panels s))"
  shows "map fst (panels (restorePanelState state c s)) = map fst (panels s)
       \<and> panels (restorePanelState state c s) = panels s
       \<and> next_element (restorePanelState state c s) = next_element s
       \<and> (\<forall>i p. map_of (panels s) i = Some p \<longrightarrow>
            elements (restorePanelState state c s) (element p) =
              (case lastEntry state i of
                 None \<Rightarrow> elements s (element p)
               | Some e \<Rightarrow> setGeometry e (elements s (element p))))
       \<and> (\<forall>r. r \<notin> (element \<circ> snd) ` set (panels s) \<longrightarrow>
            elements (restorePanelState state c s) r = elements s r)"
proof -
  have tracked: "elements (restorePanelState state c s) (element p) =
      (case lastEntry state i of
         None \<Rightarrow> elements s (element p)
       | Some e \<Rightarrow> setGeometry e (elements s (element p)))"
    if "map_of (panels s) i = Some p" for i p
  proof -
    have "writesTo s (element p) = (\<lambda>e. pc_id e = i)"
      using writesTo_tracked [OF assms that] by (intro ext)
    then show ?thesis
      by (simp add: restore_elements lastEntry_def)
  qed
  have untracked: "elements (restorePanelState state c s) r = elements s r"
    if "r \<notin> (element \<circ> snd) ` set (panels s)" for r
  proof -
    have "\<not> writesTo s r e" for e
    proof
      assume "writesTo s r e"
      then obtain p where "map_of (panels s) (pc_id e) = Some p" "element p = r"
        by (auto simp: writesTo_def)
      then have "r \<in> (element \<circ> snd) ` set (panels s)"
        by (force dest: map_of_SomeD)
      with that show False by simp
    qed
    then have "find (writesTo s r) (rev state) = None"
      by (simp add: find_None_iff)
    then show ?thesis
      by (simp add: restore_elements)
  qed
  from tracked untracked show ?thesis
    by (simp add: restore_frame)
qed

lemma createPanel_frame:
  "next_element (createPanel cfg c s) = Suc (next_element s)"
  "draggingPanel (createPanel cfg c s) = draggingPanel s"
  "dragOffset (createPanel cfg c s) = dragOffset s"
  "containerRect (createPanel cfg c s) = containerRect s"
  "panels (createPanel cfg c s) =
     AList.update (pc_id cfg) \<lparr>element = next_element s, config = cfg\<rparr> (panels s)"
  by (simp_all add: createPanel_def Let_def)

lemma createPanel_elements:
  "elements (createPanel cfg c s) r =
     (if r = next_element s
      then \<lparr>el_id = pc_id cfg, style_left = pc_x cfg, style_top = pc_y cfg,
            style_width = pc_width cfg, style_height = pc_height cfg,
            display_none = pc_hidden cfg, zIndex = 0, parentElement = Some c, dragging = False\<rparr>
      else elements s r)"
  by (simp add: createPanel_def Let_def)

lemma createPanel_tracked:
  "map_of (panels (createPanel cfg c s)) =
     (map_of (panels s))(pc_id cfg \<mapsto> \<lparr>element = next_element s, config = cfg\<rparr>)"
  by (simp add: createPanel_frame update_conv')

text \<open>Creating and removing panels never gives the map two entries with one id.\<close>

lemma createPanel_ids_distinct:
  "distinct (map fst (panels s)) \<Longrightarrow> distinct (map fst (panels (createPanel cfg c s)))"
  by (simp add: createPanel_frame distinct_update)

lemma removePanel_ids_distinct:
  "distinct (map fst (panels s)) \<Longrightarrow> distinct (map fst (panels (removePanel i s)))"
  by (simp add: removePanel_def distinct_delete split: option.splits)

lemma storeA_facts:
  "panels storeA = [(''a'', \<lparr>element = 0, config = mkPanel ''a'' ''A'' 0 0 100 100 False\<rparr>)]"
  "next_element storeA = 1"
  "geometry (elements storeA 0) = (0, 0, 100, 100)"
  "style_left (elements storeA 0) = 0"
  "style_top (elements storeA 0) = 0"
  "style_width (elements storeA 0) = 100"
  "style_height (elements storeA 0) = 100"
  by (simp_all add: storeA_def createPanel_frame createPanel_elements new_PanelSystem_def
      mkPanel_def geometry_def)

text \<open>
  C3, as stated, fails: creating a panel under a tracked id changes the instance
  tracked under that id and its geometry.
\<close>

theorem createPanel_tracked_id_not_noop:
  "trackedGeometry storeA ''a'' = Some (0, 0, 100, 100)
   \<and> trackedGeometry (createPanel (mkPanel ''a'' ''A'' 50 60 200 150 False) 0 storeA) ''a''
       = Some (50, 60, 200, 150)"
  by (simp add: trackedGeometry_def createPanel_tracked createPanel_elements storeA_facts
      geometry_def mkPanel_def)

text \<open>
  C3, amended: \<^verbatim>\<open>createPanel\<close> with a tracked id builds a new element at the config's
  geometry in the container and replaces the instance tracked under that id by the new
  one. The ids of the map and their order are unchanged, so no second instance with
  that id is tracked; the instances of the other ids and all existing elements, the
  one tracked before among them, are unchanged.
\<close>

theorem createPanel_tracked_id_replaces:
  assumes "map_of (panels s) (pc_id cfg) = Some old"
  shows "map_of (panels (createPanel cfg c s)) (pc_id cfg)
           = Some \<lparr>element = next_element s, config = cfg\<rparr>
       \<and> geometry (elements (createPanel cfg c s) (next_element s))
           = (pc_x cfg, pc_y cfg, pc_width cfg, pc_height cfg)
       \<and> parentElement (elements (createPanel cfg c s) (next_element s)) = Some c
       \<and> map fst (panels (createPanel cfg c s)) = map fst (panels s)
       \<and> (\<forall>j. j \<noteq> pc_id cfg \<longrightarrow> map_of (panels (createPanel cfg c s)) j = map_of (panels s) j)
       \<and> (\<forall>r. r \<noteq> next_element s \<longrightarrow> elements (createPanel cfg c s) r = elements s r)"
proof -
  from assms have "pc_id cfg \<in> fst ` set (panels s)"
    by (force dest: map_of_SomeD)
  then have "map fst (panels (createPanel cfg c s)) = map fst (panels s)"
    by (simp add: createPanel_frame update_keys)
  then show ?thesis
    by (simp add: createPanel_tracked createPanel_elements geometry_def)
qed

theorem createPanel_tracked_id_replaces_witness:
  "map_of (panels storeA) (pc_id (mkPanel ''a'' ''A'' 50 60 200 150 False))
     = Some \<lparr>element = 0, config = mkPanel ''a'' ''A'' 0 0 100 100 False\<rparr>
   \<and> map_of (panels (createPanel (mkPanel ''a'' ''A'' 50 60 200 150 False) 0 storeA)) ''a''
       = Some \<lparr>element = 1, config = mkPanel ''a'' ''A'' 50 60 200 150 False\<rparr>
   \<and> geometry (elements (createPanel (mkPanel ''a'' ''A'' 50 60 200 150 False) 0 storeA) 1)
       = (50, 60, 200, 150)
   \<and> map fst (panels (createPanel (mkPanel ''a'' ''A'' 50 60 200 150 False) 0 storeA)) = [''a'']
   \<and> elements (createPanel (mkPanel ''a'' ''A'' 50 60 200 150 False) 0 storeA) 0 = elements storeA 0"
proof -
  have h: "map_of (panels storeA) (pc_id (mkPanel ''a'' ''A'' 50 60 200 150 False))
     = Some \<lparr>element = 0, config = mkPanel ''a'' ''A'' 0 0 100 100 False\<rparr>"
    by (simp add: storeA_facts mkPanel_def)
  from createPanel_tracked_id_replaces [OF h, of 0] h
  show ?thesis
    by (simp add: storeA_facts mkPanel_def)
qed

lemma detach_fold:
  "fold detach ps h r =
     (if r \<in> (element \<circ> snd) ` set ps then (h r)\<lparr>parentElement := None\<rparr> else h r)"
proof (induction ps arbitrary: h)
  case Nil
  show ?case by simp
next
  case (Cons kp ps)
  have "fold detach (kp # ps) h r = fold detach ps (detach kp h) r"
    by simp
  also have "\<dots> = (if r \<in> (element \<circ> snd) ` set ps
                    then (detach kp h r)\<lparr>parentElement := None\<rparr> else detach kp h r)"
    by (rule Cons)
  also have "\<dots> = (if r \<in> (element \<circ> snd) ` set (kp # ps)
                    then (h r)\<lparr>parentElement := None\<rparr> else h r)"
    by (simp add: detach_def)
  finally show ?case .
qed

lemma clearAllPanels_frame:
  "panels (clearAllPanels c s) = []"
  "next_element (clearAllPanels c s) = next_element s"
  "draggingPanel (clearAllPanels c s) = draggingPanel s"
  "dragOffset (clearAllPanels c s) = dragOffset s"
  "containerRect (clearAllPanels c s) = containerRect s"
  by (simp_all add: clearAllPanels_def)

lemma clearAllPanels_elements:
  "elements (clearAllPanels c s) r =
     (if r \<in> (element \<circ> snd) ` set (panels s)
      then (elements s r)\<lparr>parentElement := None\<rparr> else elements s r)"
  by (simp add: clearAllPanels_def detach_fold)

lemma twoContainers_facts:
  "panels twoContainers =
     [(''a'', \<lparr>element = 0, config = mkPanel ''a'' ''A'' 0 0 100 100 False\<rparr>),
      (''b'', \<lparr>element = 1, config = mkPanel ''b'' ''B'' 10 20 30 40 False\<rparr>)]"
  "parentElement (elements twoContainers 0) = Some 1"
  "parentElement (elements twoContainers (Suc 0)) = Some 2"
  "parentElement (elements twoContainers 5) = None"
  by (simp_all add: twoContainers_def createPanel_frame createPanel_elements new_PanelSystem_def
      mkPanel_def blank_element_def)

text \<open>
  C8, as stated, fails: clearing container 1 also drops and detaches panel \<^verbatim>\<open>b\<close>,
  which sits in container 2.
\<close>

theorem clearAllPanels_other_container:
  "parentElement (elements twoContainers 1) = Some 2
   \<and> map_of (panels twoContainers) ''b''
       = Some \<lparr>element = 1, config = mkPanel ''b'' ''B'' 10 20 30 40 False\<rparr>
   \<and> map_of (panels (clearAllPanels 1 twoContainers)) ''b'' = None
   \<and> parentElement (elements (clearAllPanels 1 twoContainers) 1) = None"
  by (simp add: clearAllPanels_frame clearAllPanels_elements twoContainers_facts)

text \<open>
  C8, amended: \<^verbatim>\<open>clearAllPanels\<close> removes every tracked instance, whichever
  container it is in. Afterwards no instance is tracked, the element of each formerly
  tracked instance is detached and otherwise unchanged, every other element is
  unchanged, and the result does not depend on the container passed.
\<close>

theorem clearAllPanels_clears_everything:
  "panels (clearAllPanels c s) = []
   \<and> (\<forall>kp \<in> set (panels s).
        elements (clearAllPanels c s) (element (snd kp))
          = (elements s (element (snd kp)))\<lparr>parentElement := None\<rparr>)
   \<and> (\<forall>r. r \<notin> (element \<circ> snd) ` set (panels s) \<longrightarrow> elements (clearAllPanels c s) r = elements s r)
   \<and> clearAllPanels c s = clearAllPanels c' s"
  by (simp add: clearAllPanels_frame clearAllPanels_elements) (simp add: clearAllPanels_def)

theorem clearAllPanels_clears_everything_witness:
  "(''b'', \<lparr>element = 1, config = mkPanel ''b'' ''B'' 10 20 30 40 False\<rparr>) \<in> set (panels twoContainers)
   \<and> 5 \<notin> (element \<circ> snd) ` set (panels twoContainers)
   \<and> panels (clearAllPanels 1 twoContainers) = []
   \<and> parentElement (elements (clearAllPanels 1 twoContainers) 1) = None
   \<and> elements (clearAllPanels 1 twoContainers) 5 = elements twoContainers 5
   \<and> clearAllPanels 1 twoContainers = clearAllPanels 2 twoContainers"
proof -
  have m: "(''b'', \<lparr>element = 1, config = mkPanel ''b'' ''B'' 10 20 30 40 False\<rparr>) \<in> set (panels twoContainers)"
    by (simp add: twoContainers_facts)
  have n: "5 \<notin> (element \<circ> snd) ` set (panels twoContainers)"
    by (simp add: twoContainers_facts)
  note T = clearAllPanels_clears_everything [of 1 twoContainers 2]
  have "panels (clearAllPanels 1 twoContainers) = []"
    by (rule T [THEN conjunct1])
  moreover have "elements (clearAllPanels 1 twoContainers) 1
      = (elements twoContainers 1)\<lparr>parentElement := None\<rparr>"
    using T [THEN conjunct2, THEN conjunct1, THEN bspec, OF m] by simp
  moreover have "elements (clearAllPanels 1 twoContainers) 5 = elements twoContainers 5"
    using T [THEN conjunct2, THEN conjunct2, THEN conjunct1, THEN spec, of 5] n by blast
  moreover have "clearAllPanels 1 twoContainers = clearAllPanels 2 twoContainers"
    by (rule T [THEN conjunct2, THEN conjunct2, THEN conjunct2])
  ultimately show ?thesis using m n by simp
qed

lemma twoContainers_elements:
  "elements twoContainers 0 =
     \<lparr>el_id = ''a'', style_left = 0, style_top = 0, style_width = 100, style_height = 100,
      display_none = False, zIndex = 0, parentElement = Some 1, dragging = False\<rparr>"
  "elements twoContainers (Suc 0) =
     \<lparr>el_id = ''b'', style_left = 10, style_top = 20, style_width = 30, style_height = 40,
      display_none = False, zIndex = 0, parentElement = Some 2, dragging = False\<rparr>"
  by (simp_all add: twoContainers_def createPanel_frame createPanel_elements new_PanelSystem_def
      mkPanel_def)

theorem restore_overwrites_matching_witness:
  "distinct (map (element \<circ> snd) (panels twoContainers))
   \<and> map fst (panels (restorePanelState savedAZ 1 twoContainers)) = [''a'', ''b'']
   \<and> next_element (restorePanelState savedAZ 1 twoContainers) = next_element twoContainers
   \<and> geometry (elements (restorePanelState savedAZ 1 twoContainers) 0) = (5, 6, 70, 80)
   \<and> elements (restorePanelState savedAZ 1 twoContainers) 1 = elements twoContainers 1
   \<and> elements (restorePanelState savedAZ 1 twoContainers) 2 = elements twoContainers 2"
proof -
  have d: "distinct (map (element \<circ> snd) (panels twoContainers))"
    by (simp add: twoContainers_facts)
  have a: "map_of (panels twoContainers) ''a''
             = Some \<lparr>element = 0, config = mkPanel ''a'' ''A'' 0 0 100 100 False\<rparr>"
    and b: "map_of (panels twoContainers) ''b''
             = Some \<lparr>element = 1, config = mkPanel ''b'' ''B'' 10 20 30 40 False\<rparr>"
    and u: "2 \<notin> (element \<circ> snd) ` set (panels twoContainers)"
    by (simp_all add: twoContainers_facts)
  have la: "lastEntry savedAZ ''a'' = Some (mkPanel ''a'' ''A'' 5 6 70 80 False)"
    and lb: "lastEntry savedAZ ''b'' = None"
    by (simp_all add: lastEntry_def savedAZ_def mkPanel_def)
  note T = restore_overwrites_matching [OF d, of savedAZ 1]
  have "map fst (panels (restorePanelState savedAZ 1 twoContainers)) = [''a'', ''b'']"
    using T [THEN conjunct1] by (simp add: twoContainers_facts)
  moreover have "next_element (restorePanelState savedAZ 1 twoContainers) = next_element twoContainers"
    by (rule T [THEN conjunct2, THEN conjunct2, THEN conjunct1])
  moreover have "geometry (elements (restorePanelState savedAZ 1 twoContainers) 0) = (5, 6, 70, 80)"
    using T [THEN conjunct2, THEN conjunct2, THEN conjunct2, THEN conjunct1, THEN spec, THEN spec,
        THEN mp, OF a]
    by (simp add: la setGeometry_def geometry_def mkPanel_def)
  moreover have "elements (restorePanelState savedAZ 1 twoContainers) 1 = elements twoContainers 1"
    using T [THEN conjunct2, THEN conjunct2, THEN conjunct2, THEN conjunct1, THEN spec, THEN spec,
        THEN mp, OF b]
    by (simp add: lb)
  moreover have "elements (restorePanelState savedAZ 1 twoContainers) 2 = elements twoContainers 2"
    using T [THEN conjunct2, THEN conjunct2, THEN conjunct2, THEN conjunct2, THEN spec, THEN mp, OF u] .
  ultimately show ?thesis using d by simp
qed

lemma charactersStore_facts:
  "panels charactersStore =
     [(''character-list'',
        \<lparr>element = 0, config = mkPanel ''character-list'' ''Character List'' 0 0 1200 600 False\<rparr>),
      (''character-editor'',
        \<lparr>element = Suc 0, config = mkPanel ''character-editor'' ''Character Details'' 910 0 500 600 True\<rparr>)]"
  "elements charactersStore 0 =
     \<lparr>el_id = ''character-list'', style_left = 0, style_top = 0, style_width = 1200,
      style_height = 600, display_none = False, zIndex = 0, parentElement = Some 2,
      dragging = False\<rparr>"
  "elements charactersStore (Suc 0) =
     \<lparr>el_id = ''character-editor'', style_left = 910, style_top = 0, style_width = 500,
      style_height = 600, display_none = True, zIndex = 0, parentElement = Some 2,
      dragging = False\<rparr>"
  "next_element charactersStore = 2"
  by (simp_all add: charactersStore_def createPanels_def createPanel_frame createPanel_elements
      new_PanelSystem_def mkPanel_def)

lemma charactersStore_snapshot:
  "getPanelState charactersStore =
     [mkPanel ''character-list'' ''Character List'' 0 0 1200 600 False,
      mkPanel ''character-editor'' ''Character Details'' 910 0 0 0 False]"
  by (simp add: getPanelState_def snapshotEntry_def charactersStore_facts mkPanel_def
      offsetWidth_def offsetHeight_def)

text \<open>
  C4 at a store with a hidden panel: the snapshot reports the hidden editor as 0 by 0,
  and restoring that snapshot shrinks the editor's styled size from 500 by 600 to 0 by
  0.
\<close>

theorem snapshot_restore_hidden_panel:
  "map_of (panels charactersStore) ''character-editor''
     = Some \<lparr>element = 1, config = mkPanel ''character-editor'' ''Character Details'' 910 0 500 600 True\<rparr>
   \<and> geometry (elements charactersStore 1) = (910, 0, 500, 600)
   \<and> geometry (elements (restorePanelState (getPanelState charactersStore) 2 charactersStore) 1)
       = (910, 0, 0, 0)"
  by (simp add: charactersStore_snapshot restorePanelState_def restoreOne_def
      charactersStore_facts geometry_def mkPanel_def)

text \<open>
  When every tracked panel is displayed (and the map is keyed by the config ids), the
  snapshot followed by its restore changes nothing.
\<close>

lemma find_holds: "find P xs = Some x \<Longrightarrow> x \<in> set xs \<and> P x"
  by (induction xs) (auto split: if_splits)

lemma snapshot_writes_own_geometry:
  assumes "distinct (map fst (panels s))"
    and "\<forall>kp \<in> set (panels s). pc_id (config (snd kp)) = fst kp"
    and "\<forall>kp \<in> set (panels s). \<not> display_none (elements s (element (snd kp)))"
    and "e \<in> set (getPanelState s)" and "writesTo s r e"
  shows "setGeometry e (elements s r) = elements s r"
proof -
  from assms(4) obtain kp where kp: "kp \<in> set (panels s)" "e = snapshotEntry s kp"
    by (auto simp: getPanelState_def)
  from kp(1) assms(2) have key: "pc_id e = fst kp"
    by (simp add: kp(2) snapshotEntry_def Let_def)
  from assms(1) kp(1) have "map_of (panels s) (fst kp) = Some (snd kp)"
    by simp
  with assms(5) key have r: "r = element (snd kp)"
    by (simp add: writesTo_def)
  from kp(1) assms(3) have "\<not> display_none (elements s (element (snd kp)))"
    by blast
  then show ?thesis
    by (simp add: r kp(2) setGeometry_def snapshotEntry_def Let_def offsetWidth_def offsetHeight_def)
qed

lemma snapshot_restore_displayed:
  assumes "distinct (map fst (panels s))"
    and "\<forall>kp \<in> set (panels s). pc_id (config (snd kp)) = fst kp"
    and "\<forall>kp \<in> set (panels s). \<not> display_none (elements s (element (snd kp)))"
  shows "restorePanelState (getPanelState s) c s = s"
proof -
  have "elements (restorePanelState (getPanelState s) c s) r = elements s r" for r
  proof (cases "find (writesTo s r) (rev (getPanelState s))")
    case None
    then show ?thesis by (simp add: restore_elements)
  next
    case (Some e)
    then have "e \<in> set (getPanelState s)" "writesTo s r e"
      using find_holds [of "writesTo s r" "rev (getPanelState s)" e] by simp_all
    from snapshot_writes_own_geometry [OF assms this] Some show ?thesis
      by (simp add: restore_elements)
  qed
  then have "elements (restorePanelState (getPanelState s) c s) = elements s"
    by (rule ext)
  then show ?thesis
    by (simp add: restore_frame panelSystem.equality)
qed

section \<open>Saving, section setup and reconciliation\<close>

lemma saveProjectState_no_section: "currentSection a = None \<Longrightarrow> saveProjectState a = a"
  by (simp add: saveProjectState_def)

lemma saveProjectState_empty_snapshot:
  "getPanelState (panelSystem a) = [] \<Longrightarrow> savedLayouts (saveProjectState a) = savedLayouts a"
  by (simp add: saveProjectState_def Let_def split: option.splits)

lemma saveProjectState_layouts:
  assumes "currentSection a = Some sec" and "sec \<noteq> []"
  shows "savedLayouts (saveProjectState a) =
           (if getPanelState (panelSystem a) \<noteq> []
            then (savedLayouts a)(sec \<mapsto> getPanelState (panelSystem a)) else savedLayouts a)"
    and "panelSystem (saveProjectState a) = panelSystem a"
    and "savedStates (saveProjectState a) =
           \<lparr>panelLayouts = savedLayouts (saveProjectState a),
            st_setupSections = setupSections a,
            st_sectionPanelSelections = sectionPanelSelections a\<rparr> # savedStates a"
  using assms by (simp_all add: saveProjectState_def Let_def)

text \<open>
  C9: \<^verbatim>\<open>saveProjectState\<close> with no current section changes nothing; with an empty
  snapshot it leaves the saved layouts as they are, and every state it hands on for
  saving carries those unchanged layouts.
\<close>

theorem save_keeps_layout_on_empty_snapshot:
  "(currentSection a = None \<longrightarrow> saveProjectState a = a)
   \<and> (getPanelState (panelSystem a) = [] \<longrightarrow>
        savedLayouts (saveProjectState a) = savedLayouts a
        \<and> (\<forall>st \<in> set (savedStates (saveProjectState a)).
              st \<in> set (savedStates a) \<or> panelLayouts st = savedLayouts a))"
proof (intro conjI impI)
  assume "currentSection a = None"
  then show "saveProjectState a = a" by (rule saveProjectState_no_section)
next
  assume e: "getPanelState (panelSystem a) = []"
  then show "savedLayouts (saveProjectState a) = savedLayouts a"
    by (rule saveProjectState_empty_snapshot)
  show "\<forall>st \<in> set (savedStates (saveProjectState a)).
              st \<in> set (savedStates a) \<or> panelLayouts st = savedLayouts a"
    using e by (auto simp add: saveProjectState_def Let_def split: option.splits if_splits)
qed

theorem save_keeps_layout_on_empty_snapshot_witness:
  "currentSection idleApp = None
   \<and> saveProjectState idleApp = idleApp
   \<and> currentSection keptLayoutApp = Some ''writing''
   \<and> getPanelState (panelSystem keptLayoutApp) = []
   \<and> savedLayouts (saveProjectState keptLayoutApp) ''writing''
       = Some [mkPanel ''editor'' ''Editor'' 0 0 800 600 False]"
proof -
  have n: "currentSection idleApp = None"
    by (simp add: idleApp_def new_App_def)
  have c: "currentSection keptLayoutApp = Some ''writing''"
    by (simp add: keptLayoutApp_def)
  have e: "getPanelState (panelSystem keptLayoutApp) = []"
    by (simp add: keptLayoutApp_def new_App_def new_PanelSystem_def getPanelState_def)
  have l: "savedLayouts keptLayoutApp ''writing'' = Some [mkPanel ''editor'' ''Editor'' 0 0 800 600 False]"
    by (simp add: keptLayoutApp_def)
  have "saveProjectState idleApp = idleApp"
    using save_keeps_layout_on_empty_snapshot [of idleApp] n by blast
  moreover have "savedLayouts (saveProjectState keptLayoutApp) = savedLayouts keptLayoutApp"
    using save_keeps_layout_on_empty_snapshot [of keptLayoutApp] e by blast
  ultimately show ?thesis using n c e l by simp
qed

lemma createPanels_two:
  "createPanels [P, Q] c s = createPanel Q c (createPanel P c s)"
  by (simp add: createPanels_def)

lemma createPanels_two_cleared:
  assumes "pc_id P \<noteq> pc_id Q"
  shows "panels (createPanels [P, Q] c (clearAllPanels c' s)) =
           [(pc_id P, \<lparr>element = next_element s, config = P\<rparr>),
            (pc_id Q, \<lparr>element = Suc (next_element s), config = Q\<rparr>)]"
    and "elements (createPanels [P, Q] c (clearAllPanels c' s)) (next_element s) =
           \<lparr>el_id = pc_id P, style_left = pc_x P, style_top = pc_y P,
            style_width = pc_width P, style_height = pc_height P,
            display_none = pc_hidden P, zIndex = 0, parentElement = Some c, dragging = False\<rparr>"
    and "elements (createPanels [P, Q] c (clearAllPanels c' s)) (Suc (next_element s)) =
           \<lparr>el_id = pc_id Q, style_left = pc_x Q, style_top = pc_y Q,
            style_width = pc_width Q, style_height = pc_height Q,
            display_none = pc_hidden Q, zIndex = 0, parentElement = Some c, dragging = False\<rparr>"
    and "next_element (createPanels [P, Q] c (clearAllPanels c' s)) = Suc (Suc (next_element s))"
  using assms
  by (simp_all add: createPanels_two createPanel_frame createPanel_elements clearAllPanels_frame)

lemma loadSection_saved:
  assumes "sections a x = Some c" and "savedLayouts a x = Some L" and "L \<noteq> []"
  shows "panelSystem (loadSection templates changes x a) =
           createPanels L c (clearAllPanels c (panelSystem a))"
    and "savedLayouts (loadSection templates changes x a) = savedLayouts a"
    and "setupSections (loadSection templates changes x a) x = Some True"
    and "currentSection (loadSection templates changes x a) = currentSection a"
  using assms by (simp_all add: loadSection_def choosePanels_def Let_def)

lemma no_saved_layout:
  "savedLayouts a x = None \<or> savedLayouts a x = Some [] \<Longrightarrow>
   (case savedLayouts a x of None \<Rightarrow> False | Some saved \<Rightarrow> saved \<noteq> []) = False"
  by (cases "savedLayouts a x") simp_all

lemma choosePanels_fallback:
  assumes "savedLayouts a x = None \<or> savedLayouts a x = Some []"
    and "setupSections a x = Some True"
    and "sectionPanelSelections a x = Some ids"
    and "templates x = Some tpanels"
  shows "choosePanels templates changes x a =
           (Some (filter (\<lambda>p. pc_id p \<in> set ids) tpanels), a)"
  unfolding choosePanels_def
  apply (subst no_saved_layout [OF assms(1)])
  apply (simp only: if_False assms(2) simp_thms)
  apply (simp only: Let_def assms(3,4) option.case)
  done

lemma choosePanels_first_visit:
  assumes "savedLayouts a x = None \<or> savedLayouts a x = Some []"
    and "setupSections a x \<noteq> Some True"
    and "templates x = Some tpanels"
  shows "choosePanels templates changes x a =
           (Some (SetupDialog_show tpanels changes),
            a\<lparr>setupSections := (setupSections a)(x \<mapsto> True),
              sectionPanelSelections :=
                (sectionPanelSelections a)(x \<mapsto> map pc_id (SetupDialog_show tpanels changes)),
              savedLayouts := (savedLayouts a)(x \<mapsto> SetupDialog_show tpanels changes)\<rparr>)"
  by (simp add: choosePanels_def no_saved_layout [OF assms(1)] assms(2,3) Let_def)

lemma loadSection_fallback:
  assumes "sections a x = Some c"
    and "savedLayouts a x = None \<or> savedLayouts a x = Some []"
    and "setupSections a x = Some True"
    and "sectionPanelSelections a x = Some ids"
    and "templates x = Some tpanels"
    and "filter (\<lambda>p. pc_id p \<in> set ids) tpanels = L"
    and "L \<noteq> []"
  shows "panelSystem (loadSection templates changes x a) =
           createPanels L c (clearAllPanels c (panelSystem a))"
    and "savedLayouts (loadSection templates changes x a) = savedLayouts a"
    and "setupSections (loadSection templates changes x a) = setupSections a"
    and "sectionPanelSelections (loadSection templates changes x a) = sectionPanelSelections a"
proof -
  let ?a1 = "a\<lparr>panelSystem := clearAllPanels c (panelSystem a)\<rparr>"
  have "choosePanels templates changes x ?a1 =
          (Some (filter (\<lambda>p. pc_id p \<in> set ids) tpanels), ?a1)"
    by (rule choosePanels_fallback) (simp_all add: assms(2-5))
  then have ch: "choosePanels templates changes x ?a1 = (Some L, ?a1)"
    by (simp only: assms(6))
  have "loadSection templates changes x a =
      ?a1\<lparr>panelSystem := createPanels L c (panelSystem ?a1)\<rparr>"
    using assms(1,7) by (simp add: loadSection_def Let_def ch)
  then show "panelSystem (loadSection templates changes x a) =
           createPanels L c (clearAllPanels c (panelSystem a))"
    and "savedLayouts (loadSection templates changes x a) = savedLayouts a"
    and "setupSections (loadSection templates changes x a) = setupSections a"
    and "sectionPanelSelections (loadSection templates changes x a) = sectionPanelSelections a"
    by simp_all
qed

lemma loadSection_first_visit:
  assumes "sections a x = Some c"
    and "savedLayouts a x = None \<or> savedLayouts a x = Some []"
    and "setupSections a x \<noteq> Some True"
    and "templates x = Some tpanels"
    and "SetupDialog_show tpanels changes = L"
    and "L \<noteq> []"
  shows "panelSystem (loadSection templates changes x a) =
           createPanels L c (clearAllPanels c (panelSystem a))"
    and "savedLayouts (loadSection templates changes x a) = (savedLayouts a)(x \<mapsto> L)"
    and "setupSections (loadSection templates changes x a) = (setupSections a)(x \<mapsto> True)"
    and "sectionPanelSelections (loadSection templates changes x a) =
           (sectionPanelSelections a)(x \<mapsto> map pc_id L)"
    and "currentSection (loadSection templates changes x a) = currentSection a"
    and "sections (loadSection templates changes x a) = sections a"
proof -
  let ?a1 = "a\<lparr>panelSystem := clearAllPanels c (panelSystem a)\<rparr>"
  let ?a2 = "?a1\<lparr>setupSections := (setupSections a)(x \<mapsto> True),
              sectionPanelSelections := (sectionPanelSelections a)(x \<mapsto> map pc_id L),
              savedLayouts := (savedLayouts a)(x \<mapsto> L)\<rparr>"
  have "choosePanels templates changes x ?a1 = (Some L, ?a2)"
    using choosePanels_first_visit [of ?a1 x templates tpanels changes] assms(2-5) by simp
  then have "loadSection templates changes x a =
      ?a2\<lparr>panelSystem := createPanels L c (panelSystem ?a2)\<rparr>"
    using assms(1,6) by (simp add: loadSection_def Let_def)
  then show "panelSystem (loadSection templates changes x a) =
           createPanels L c (clearAllPanels c (panelSystem a))"
    and "savedLayouts (loadSection templates changes x a) = (savedLayouts a)(x \<mapsto> L)"
    and "setupSections (loadSection templates changes x a) = (setupSections a)(x \<mapsto> True)"
    and "sectionPanelSelections (loadSection templates changes x a) =
           (sectionPanelSelections a)(x \<mapsto> map pc_id L)"
    and "currentSection (loadSection templates changes x a) = currentSection a"
    and "sections (loadSection templates changes x a) = sections a"
    by simp_all
qed

lemma created_two:
  assumes "pc_id P \<noteq> pc_id Q"
  shows "map fst (panels (createPanels [P, Q] c (clearAllPanels c' s))) = [pc_id P, pc_id Q]"
    and "trackedConfigs (createPanels [P, Q] c (clearAllPanels c' s)) = [P, Q]"
    and "trackedGeometries (createPanels [P, Q] c (clearAllPanels c' s))
           = [configGeometry P, configGeometry Q]"
    and "getPanelState (createPanels [P, Q] c (clearAllPanels c' s)) = [rendered P, rendered Q]"
  by (simp_all add: createPanels_two_cleared [OF assms] trackedConfigs_def trackedGeometries_def
      geometry_def configGeometry_def getPanelState_def snapshotEntry_def rendered_def
      offsetWidth_def offsetHeight_def)

lemma dialog_deselect_b:
  assumes "pc_id A = ''a''" and "pc_id B = ''b''" and "pc_id C = ''c''"
  shows "SetupDialog_show [A, B, C] [(''b'', False)] = [A, C]"
  by (simp add: SetupDialog_show_def checkboxChange_def assms)

lemma firstVisit_result:
  assumes "currentSection a = Some x" and "sections a x = Some c"
    and "savedLayouts a x = None \<or> savedLayouts a x = Some []"
    and "setupSections a x \<noteq> Some True"
    and "templates x = Some [A, B, C]"
    and "pc_id A = ''a''" and "pc_id B = ''b''" and "pc_id C = ''c''"
  shows "savedLayouts (firstVisit templates x a) = (savedLayouts a)(x \<mapsto> [A, C])"
    and "sectionPanelSelections (firstVisit templates x a) x = Some [''a'', ''c'']"
    and "setupSections (firstVisit templates x a) x = Some True"
    and "currentSection (firstVisit templates x a) = Some x"
    and "panelSystem (firstVisit templates x a) =
           createPanels [A, C] c (clearAllPanels c (panelSystem a))"
    and "sections (firstVisit templates x a) = sections a"
proof -
  have fv: "firstVisit templates x a = loadSection templates [(''b'', False)] x a"
    by (simp add: firstVisit_def)
  note s = assms(2) and l = assms(3) and u = assms(4)
  note d = dialog_deselect_b [OF assms(6-8)]
  have ne: "[A, C] \<noteq> []" by simp
  note L = loadSection_first_visit [where templates = templates and tpanels = "[A, B, C]"
      and changes = "[(''b'', False)]", OF s l u assms(5) d ne]
  show "savedLayouts (firstVisit templates x a) = (savedLayouts a)(x \<mapsto> [A, C])"
    by (simp add: fv L(2))
  show "sectionPanelSelections (firstVisit templates x a) x = Some [''a'', ''c'']"
    by (simp add: fv L(4) assms(6,8))
  show "setupSections (firstVisit templates x a) x = Some True"
    by (simp add: fv L(3))
  show "currentSection (firstVisit templates x a) = Some x"
    by (simp add: fv L(5) assms(1))
  show "panelSystem (firstVisit templates x a) =
           createPanels [A, C] c (clearAllPanels c (panelSystem a))"
    by (simp add: fv L(1))
  show "sections (firstVisit templates x a) = sections a"
    by (simp add: fv L(6))
qed

lemma saveProjectState_frame:
  "sections (saveProjectState a) = sections a"
  "panelSystem (saveProjectState a) = panelSystem a"
  "currentSection (saveProjectState a) = currentSection a"
  "setupSections (saveProjectState a) = setupSections a"
  by (simp_all add: saveProjectState_def Let_def split: option.splits)

lemma firstVisit_then_save:
  assumes "currentSection a = Some x" and "x \<noteq> []" and "sections a x = Some c"
    and "savedLayouts a x = None \<or> savedLayouts a x = Some []"
    and "setupSections a x \<noteq> Some True"
    and "templates x = Some [A, B, C]"
    and "pc_id A = ''a''" and "pc_id B = ''b''" and "pc_id C = ''c''"
  shows "savedLayouts (firstVisit templates x a) x = Some [A, C]"
    and "savedLayouts (saveProjectState (firstVisit templates x a)) x
           = Some [rendered A, rendered C]"
proof -
  note F = firstVisit_result [where templates = templates, OF assms(1) assms(3-9)]
  have ne: "pc_id A \<noteq> pc_id C" by (simp add: assms(7,9))
  show "savedLayouts (firstVisit templates x a) x = Some [A, C]"
    by (simp add: F(1))
  have snap: "getPanelState (panelSystem (firstVisit templates x a)) = [rendered A, rendered C]"
    by (simp add: F(5) created_two(4) [OF ne])
  show "savedLayouts (saveProjectState (firstVisit templates x a)) x
           = Some [rendered A, rendered C]"
    by (simp add: saveProjectState_layouts(1) [OF F(4) assms(2)] snap)
qed

lemma revisit_two:
  assumes "sections a' x = Some c'" and "savedLayouts a' x = Some [P, Q]"
    and "pc_id P \<noteq> pc_id Q"
  shows "map fst (panels (panelSystem (loadSection templates' changes' x a'))) = [pc_id P, pc_id Q]"
    and "trackedConfigs (panelSystem (loadSection templates' changes' x a')) = [P, Q]"
    and "trackedGeometries (panelSystem (loadSection templates' changes' x a'))
           = [configGeometry P, configGeometry Q]"
proof -
  have ne: "[P, Q] \<noteq> []" by simp
  note L = loadSection_saved(1) [where templates = templates' and changes = changes',
      OF assms(1,2) ne]
  show "map fst (panels (panelSystem (loadSection templates' changes' x a'))) = [pc_id P, pc_id Q]"
    by (simp only: L created_two(1) [OF assms(3)])
  show "trackedConfigs (panelSystem (loadSection templates' changes' x a')) = [P, Q]"
    by (simp only: L created_two(2) [OF assms(3)])
  show "trackedGeometries (panelSystem (loadSection templates' changes' x a'))
           = [configGeometry P, configGeometry Q]"
    by (simp only: L created_two(3) [OF assms(3)])
qed

text \<open>
  C6: when \<^verbatim>\<open>loadSection\<close> runs for the current section, not yet set up and without
  a saved layout, with template panels \<^verbatim>\<open>a\<close>, \<^verbatim>\<open>b\<close>, \<^verbatim>\<open>c\<close> and \<^verbatim>\<open>b\<close> unchecked
  in the dialog, the saved layout of the section has exactly the ids \<^verbatim>\<open>a\<close>, \<^verbatim>\<open>c\<close>,
  both as \<^verbatim>\<open>loadSection\<close> stores it and after the save it schedules. Whenever the section is
  entered with that saved layout present, whatever the templates and the dialog input,
  exactly the panels \<^verbatim>\<open>a\<close> and \<^verbatim>\<open>c\<close> are tracked, their configs are the saved
  entries and their geometry is the saved geometry.
\<close>

theorem section_setup_flow:
  assumes "currentSection a = Some x" and "x \<noteq> []" and "sections a x = Some c"
    and "savedLayouts a x = None \<or> savedLayouts a x = Some []"
    and "setupSections a x \<noteq> Some True"
    and "templates x = Some [A, B, C]"
    and "pc_id A = ''a''" and "pc_id B = ''b''" and "pc_id C = ''c''"
  shows "map_option (map pc_id) (savedLayouts (firstVisit templates x a) x) = Some [''a'', ''c'']
       \<and> map_option (map pc_id) (savedLayouts (saveProjectState (firstVisit templates x a)) x)
           = Some [''a'', ''c'']
       \<and> (\<forall>a' c' L templates' changes'.
            sections a' x = Some c' \<and> savedLayouts a' x = Some L
            \<and> (Some L = savedLayouts (firstVisit templates x a) x
                \<or> Some L = savedLayouts (saveProjectState (firstVisit templates x a)) x)
            \<longrightarrow> map fst (panels (panelSystem (loadSection templates' changes' x a'))) = [''a'', ''c'']
              \<and> trackedConfigs (panelSystem (loadSection templates' changes' x a')) = L
              \<and> trackedGeometries (panelSystem (loadSection templates' changes' x a'))
                  = map configGeometry L)"
proof -
  note S = firstVisit_then_save [where templates = templates, OF assms]
  have ids: "pc_id (rendered A) = ''a''" "pc_id (rendered C) = ''c''"
    by (simp_all add: rendered_def assms(7,9))
  have revisit: "map fst (panels (panelSystem (loadSection templates' changes' x a'))) = [''a'', ''c'']
              \<and> trackedConfigs (panelSystem (loadSection templates' changes' x a')) = L
              \<and> trackedGeometries (panelSystem (loadSection templates' changes' x a'))
                  = map configGeometry L"
    if h: "sections a' x = Some c'" "savedLayouts a' x = Some L"
      "Some L = savedLayouts (firstVisit templates x a) x
       \<or> Some L = savedLayouts (saveProjectState (firstVisit templates x a)) x"
    for a' c' L templates' changes'
  proof -
    from h(3) S have "L = [A, C] \<or> L = [rendered A, rendered C]"
      by auto
    then obtain P Q where L: "L = [P, Q]" and P: "pc_id P = ''a''" and Q: "pc_id Q = ''c''"
      using assms(7,9) ids by blast
    have ne: "pc_id P \<noteq> pc_id Q" by (simp add: P Q)
    note R = revisit_two [where templates' = templates' and changes' = changes',
        OF h(1) h(2) [unfolded L] ne]
    show ?thesis
      by (simp add: R L P Q)
  qed
  have "map_option (map pc_id) (savedLayouts (firstVisit templates x a) x) = Some [''a'', ''c'']"
    by (simp add: S(1) assms(7,9))
  moreover have "map_option (map pc_id) (savedLayouts (saveProjectState (firstVisit templates x a)) x)
           = Some [''a'', ''c'']"
    by (simp add: S(2) ids)
  ultimately show ?thesis
    using revisit by blast
qed

text \<open>
  How \<^verbatim>\<open>switchSection\<close> reaches \<^verbatim>\<open>loadSection\<close>: with a project loaded and a current
  section that has an element (or none), it runs \<^verbatim>\<open>loadSection\<close> on the app whose
  current section is the one entered; with a current section that has no element it
  fails and loads nothing.
\<close>

lemma switchSection_enters:
  assumes "isProjectLoaded a"
    and "currentSection a = None \<or> currentSection a = Some []
         \<or> (\<exists>cur k. currentSection a = Some cur \<and> sections a cur = Some k)"
  shows "switchSection templates changes x a =
           Inr (loadSection templates changes x (a\<lparr>currentSection := Some x\<rparr>))"
  using assms by (auto simp add: switchSection_def)

lemma switchSection_throws:
  assumes "isProjectLoaded a" and "currentSection a = Some cur" and "cur \<noteq> []"
    and "sections a cur = None"
  shows "switchSection templates changes x a = Inl TypeError"
  using assms by (simp add: switchSection_def)

lemma loadedApp_facts:
  "currentSection loadedApp = Some ''writing''"
  "sections loadedApp ''writing'' = Some 0"
  "savedLayouts loadedApp ''writing'' = None"
  "setupSections loadedApp ''writing'' \<noteq> Some True"
  by (simp_all add: loadedApp_def new_App_def)

theorem section_setup_flow_witness:
  "currentSection loadedApp = Some ''writing''
   \<and> sections loadedApp ''writing'' = Some 0
   \<and> savedLayouts loadedApp ''writing'' = None
   \<and> setupSections loadedApp ''writing'' \<noteq> Some True
   \<and> abcTemplates ''writing'' = Some [mkPanel ''a'' ''A'' 0 0 400 300 False,
        mkPanel ''b'' ''B'' 410 0 200 300 False, mkPanel ''c'' ''C'' 0 310 610 200 False]
   \<and> map_option (map pc_id) (savedLayouts (firstVisit abcTemplates ''writing'' loadedApp) ''writing'')
       = Some [''a'', ''c'']
   \<and> map_option (map pc_id)
         (savedLayouts (saveProjectState (firstVisit abcTemplates ''writing'' loadedApp)) ''writing'')
       = Some [''a'', ''c'']
   \<and> map fst (panels (panelSystem (loadSection layouts [(''b'', True)] ''writing''
         (saveProjectState (firstVisit abcTemplates ''writing'' loadedApp))))) = [''a'', ''c'']
   \<and> trackedGeometries (panelSystem (loadSection layouts [(''b'', True)] ''writing''
         (saveProjectState (firstVisit abcTemplates ''writing'' loadedApp))))
       = [(0, 0, 400, 300), (0, 310, 610, 200)]"
proof -
  let ?A = "mkPanel ''a'' ''A'' 0 0 400 300 False"
  let ?B = "mkPanel ''b'' ''B'' 410 0 200 300 False"
  let ?C = "mkPanel ''c'' ''C'' 0 310 610 200 False"
  let ?fv = "firstVisit abcTemplates ''writing'' loadedApp"
  have x: "''writing'' \<noteq> []" by simp
  have l: "savedLayouts loadedApp ''writing'' = None \<or> savedLayouts loadedApp ''writing'' = Some []"
    by (simp add: loadedApp_facts)
  have t: "abcTemplates ''writing'' = Some [?A, ?B, ?C]"
    by (simp add: abcTemplates_def)
  have i: "pc_id ?A = ''a''" "pc_id ?B = ''b''" "pc_id ?C = ''c''"
    by (simp_all add: mkPanel_def)
  note T = section_setup_flow [where templates = abcTemplates,
      OF loadedApp_facts(1) x loadedApp_facts(2) l loadedApp_facts(4) t i]
  note S = firstVisit_then_save [where templates = abcTemplates,
      OF loadedApp_facts(1) x loadedApp_facts(2) l loadedApp_facts(4) t i]
  note F = firstVisit_result [where templates = abcTemplates,
      OF loadedApp_facts(1) loadedApp_facts(2) l loadedApp_facts(4) t i]
  have s': "sections (saveProjectState ?fv) ''writing'' = Some 0"
    by (simp add: saveProjectState_frame F(6) loadedApp_facts)
  have pre: "sections (saveProjectState ?fv) ''writing'' = Some 0
      \<and> savedLayouts (saveProjectState ?fv) ''writing'' = Some [rendered ?A, rendered ?C]
      \<and> (Some [rendered ?A, rendered ?C] = savedLayouts ?fv ''writing''
          \<or> Some [rendered ?A, rendered ?C] = savedLayouts (saveProjectState ?fv) ''writing'')"
    by (simp add: s' S(2))
  note R = T [THEN conjunct2, THEN conjunct2, THEN spec, THEN spec, THEN spec, THEN spec,
      THEN spec, THEN mp, OF pre, of layouts "[(''b'', True)]"]
  have g: "map configGeometry [rendered ?A, rendered ?C] = [(0, 0, 400, 300), (0, 310, 610, 200)]"
    by (simp add: configGeometry_def rendered_def mkPanel_def)
  from T [THEN conjunct1] T [THEN conjunct2, THEN conjunct1] R g t loadedApp_facts
  show ?thesis by simp
qed

text \<open>
  C7: in a section marked as set up, with the selection \<^verbatim>\<open>a\<close>, \<^verbatim>\<open>c\<close> recorded and no
  or an empty saved layout, entering with template panels \<^verbatim>\<open>a\<close>, \<^verbatim>\<open>b\<close>, \<^verbatim>\<open>c\<close>,
  \<^verbatim>\<open>d\<close> tracks exactly \<^verbatim>\<open>a\<close> and \<^verbatim>\<open>c\<close>, with the template's configs and
  geometry, in the section's container.
\<close>

theorem reconciliation_fallback:
  assumes "sections a x = Some c"
    and "setupSections a x = Some True"
    and "sectionPanelSelections a x = Some [''a'', ''c'']"
    and "savedLayouts a x = None \<or> savedLayouts a x = Some []"
    and "templates x = Some [A, B, C, D]"
    and "pc_id A = ''a''" and "pc_id B = ''b''" and "pc_id C = ''c''" and "pc_id D = ''d''"
  shows "map fst (panels (panelSystem (loadSection templates changes x a))) = [''a'', ''c'']
       \<and> trackedConfigs (panelSystem (loadSection templates changes x a)) = [A, C]
       \<and> trackedGeometries (panelSystem (loadSection templates changes x a))
           = [configGeometry A, configGeometry C]
       \<and> (\<forall>kp \<in> set (panels (panelSystem (loadSection templates changes x a))).
            parentElement (elements (panelSystem (loadSection templates changes x a))
                                    (element (snd kp))) = Some c)"
proof -
  have f: "filter (\<lambda>p. pc_id p \<in> set [''a'', ''c'']) [A, B, C, D] = [A, C]"
    by (simp add: assms(6-9))
  have ne: "[A, C] \<noteq> []" by simp
  have d: "pc_id A \<noteq> pc_id C" by (simp add: assms(6,8))
  note L = loadSection_fallback(1) [where templates = templates and changes = changes,
      OF assms(1,4,2,3,5) f ne]
  show ?thesis
    unfolding L
    by (simp add: created_two [OF d] createPanels_two_cleared [OF d] assms(6,8))
qed

lemma fallbackApp_facts:
  "sections fallbackApp ''writing'' = Some 0"
  "setupSections fallbackApp ''writing'' = Some True"
  "sectionPanelSelections fallbackApp ''writing'' = Some [''a'', ''c'']"
  "savedLayouts fallbackApp ''writing'' = None"
  by (simp_all add: fallbackApp_def new_App_def)

theorem reconciliation_fallback_witness:
  "sections fallbackApp ''writing'' = Some 0
   \<and> setupSections fallbackApp ''writing'' = Some True
   \<and> sectionPanelSelections fallbackApp ''writing'' = Some [''a'', ''c'']
   \<and> savedLayouts fallbackApp ''writing'' = None
   \<and> abcdTemplates ''writing'' = Some [mkPanel ''a'' ''A'' 0 0 400 300 False,
        mkPanel ''b'' ''B'' 410 0 200 300 False, mkPanel ''c'' ''C'' 0 310 610 200 False,
        mkPanel ''d'' ''D'' 620 0 100 510 False]
   \<and> map fst (panels (panelSystem (loadSection abcdTemplates [] ''writing'' fallbackApp)))
       = [''a'', ''c'']
   \<and> trackedGeometries (panelSystem (loadSection abcdTemplates [] ''writing'' fallbackApp))
       = [(0, 0, 400, 300), (0, 310, 610, 200)]"
proof -
  let ?A = "mkPanel ''a'' ''A'' 0 0 400 300 False"
  let ?B = "mkPanel ''b'' ''B'' 410 0 200 300 False"
  let ?C = "mkPanel ''c'' ''C'' 0 310 610 200 False"
  let ?D = "mkPanel ''d'' ''D'' 620 0 100 510 False"
  have l: "savedLayouts fallbackApp ''writing'' = None \<or> savedLayouts fallbackApp ''writing'' = Some []"
    by (simp add: fallbackApp_facts)
  have t: "abcdTemplates ''writing'' = Some [?A, ?B, ?C, ?D]"
    by (simp add: abcdTemplates_def)
  have i: "pc_id ?A = ''a''" "pc_id ?B = ''b''" "pc_id ?C = ''c''" "pc_id ?D = ''d''"
    by (simp_all add: mkPanel_def)
  note T = reconciliation_fallback [where templates = abcdTemplates and changes = "[]",
      OF fallbackApp_facts(1-3) l t i]
  have g: "[configGeometry ?A, configGeometry ?C] = [(0, 0, 400, 300), (0, 310, 610, 200)]"
    by (simp add: configGeometry_def mkPanel_def)
  from T [THEN conjunct1] T [THEN conjunct2, THEN conjunct2, THEN conjunct1] g t fallbackApp_facts
  show ?thesis by simp
qed

section \<open>The adaptive split at width 1200\<close>

lemma split_1200_base: "baseListWidth ''list'' 1200 = 360"
  by code_simp

lemma split_1200_cap: "editorWidthCap ''list'' 1200 = 840"
  by code_simp

lemma split_1200_pct: "maxEditorPct ''list'' = (6305039478318694, - 53)"
  by code_simp

lemma split_1200:
  "baseEditorWidth ''list'' 1200 = 830"
  "editorWidth ''list'' 1200 = 830"
  "listWidth ''list'' 1200 = 360"
  by (simp_all add: baseEditorWidth_def editorWidth_def listWidth_def clamp_def gapPx_def
      minEditorPx_def split_1200_base split_1200_cap)

text \<open>
  C1, as stated, fails: at width 1200 in the list view the clamp of the editor width
  does not give 840, and the widths are not (350, 840).
\<close>

theorem split_1200_not_350_840:
  "clamp (baseEditorWidth ''list'' 1200) minEditorPx (editorWidthCap ''list'' 1200) \<noteq> 840
   \<and> (listWidth ''list'' 1200, editorWidth ''list'' 1200) \<noteq> (350, 840)"
  by (simp add: split_1200 split_1200_cap clamp_def minEditorPx_def)

lemma getElementById_holds:
  assumes "getElementById i s = Some r"
  shows "el_id (elements s r) = i"
  using find_holds [OF assms [unfolded getElementById_def]] by simp

text \<open>
  C1, amended: at container width 1200, list view, editor visible, the fraction is
  0.70, the base split is list 360 and editor 830, the upper bound of the clamp is 840,
  the editor width 830 lies within 320 and 840 and stays 830, the list width is
  recomputed to 360, and the widths assigned to the list and editor panels are
  (360, 830), the editor at left 370.
\<close>

theorem adaptive_split_1200:
  assumes "getElementById ''character-list'' (panelSystem a) = Some l"
    and "getElementById ''character-editor'' (panelSystem a) = Some ed"
    and "sections a ''characters'' = Some c"
    and "rect_width (containerRect (panelSystem a) c) = 1200"
    and "currentCharacterView a = None \<or> currentCharacterView a = Some ''list''"
  shows "maxEditorPct ''list'' = to_double 70 100
       \<and> baseListWidth ''list'' 1200 = 360
       \<and> baseEditorWidth ''list'' 1200 = 830
       \<and> editorWidthCap ''list'' 1200 = 840
       \<and> editorWidth ''list'' 1200 = 830
       \<and> listWidth ''list'' 1200 = 360
       \<and> style_width (elements (panelSystem (adjustCharacterPanelLayout True a)) l) = 360
       \<and> style_width (elements (panelSystem (adjustCharacterPanelLayout True a)) ed) = 830
       \<and> style_left (elements (panelSystem (adjustCharacterPanelLayout True a)) l) = 0
       \<and> style_left (elements (panelSystem (adjustCharacterPanelLayout True a)) ed) = 370"
proof -
  have "el_id (elements (panelSystem a) l) \<noteq> el_id (elements (panelSystem a) ed)"
    by (simp add: getElementById_holds [OF assms(1)] getElementById_holds [OF assms(2)])
  then have ne: "l \<noteq> ed" by auto
  have v: "(case currentCharacterView a of None \<Rightarrow> ''list''
            | Some v \<Rightarrow> if v = [] then ''list'' else v) = ''list''"
    using assms(5) by auto
  have "style_width (elements (panelSystem (adjustCharacterPanelLayout True a)) l) = 360
       \<and> style_width (elements (panelSystem (adjustCharacterPanelLayout True a)) ed) = 830
       \<and> style_left (elements (panelSystem (adjustCharacterPanelLayout True a)) l) = 0
       \<and> style_left (elements (panelSystem (adjustCharacterPanelLayout True a)) ed) = 370"
    using ne
    by (simp add: adjustCharacterPanelLayout_def assms(1-4) v Let_def split_1200 gapPx_def)
  then show ?thesis
    by (simp add: split_1200 split_1200_base split_1200_cap maxEditorPct_def)
qed

lemma charactersStore_rect: "containerRect charactersStore = docRects"
  by (simp add: charactersStore_def createPanels_def createPanel_frame new_PanelSystem_def)

lemma shownEditor_facts:
  "next_element (showPanel ''character-editor'' charactersStore) = Suc (Suc 0)"
  "containerRect (showPanel ''character-editor'' charactersStore) = docRects"
  "el_id (elements (showPanel ''character-editor'' charactersStore) 0) = ''character-list''"
  "el_id (elements (showPanel ''character-editor'' charactersStore) (Suc 0)) = ''character-editor''"
  "parentElement (elements (showPanel ''character-editor'' charactersStore) 0) = Some 2"
  "parentElement (elements (showPanel ''character-editor'' charactersStore) (Suc 0)) = Some 2"
  by (simp_all add: showPanel_def charactersStore_facts charactersStore_rect)

lemma charactersApp_facts:
  "getElementById ''character-list'' (panelSystem charactersApp) = Some 0"
  "getElementById ''character-editor'' (panelSystem charactersApp) = Some 1"
  "sections charactersApp ''characters'' = Some 2"
  "rect_width (containerRect (panelSystem charactersApp) 2) = 1200"
  "currentCharacterView charactersApp = Some ''list''"
  by (simp_all add: charactersApp_def new_App_def getElementById_def shownEditor_facts docRects_def)

theorem adaptive_split_1200_witness:
  "getElementById ''character-list'' (panelSystem charactersApp) = Some 0
   \<and> getElementById ''character-editor'' (panelSystem charactersApp) = Some 1
   \<and> sections charactersApp ''characters'' = Some 2
   \<and> rect_width (containerRect (panelSystem charactersApp) 2) = 1200
   \<and> currentCharacterView charactersApp = Some ''list''
   \<and> style_width (elements (panelSystem (adjustCharacterPanelLayout True charactersApp)) 0) = 360
   \<and> style_width (elements (panelSystem (adjustCharacterPanelLayout True charactersApp)) 1) = 830"
proof -
  have v: "currentCharacterView charactersApp = None
           \<or> currentCharacterView charactersApp = Some ''list''"
    by (simp add: charactersApp_facts)
  from adaptive_split_1200 [OF charactersApp_facts(1-4) v] charactersApp_facts
  show ?thesis by simp
qed

end
